theory Spec2Isabelle
  imports Complex_Main
begin

text \<open>
  A model of the feed hub: the message envelope, the two ingesters, the connection
  manager and the two consumers, each function translated from its TypeScript source.

  \<^item> What a function reads from the outside (an HTTP response, the clock, a fresh
    UUID, the answer of the broker client, the result of \<open>JSON.parse\<close>) is an
    argument of its model.
  \<^item> What it does to the outside (a publish, an acknowledgement, a sleep, a timer, a
    connection attempt, a console line of a consumer) is an entry of the effect list it
    returns, in the order of the source. The console lines of the ingesters and of the
    connection manager are left out.
  \<^item> Module variables and the fields of the connection manager are a record that is
    passed in and returned.
  \<^item> A \<open>throw\<close> is a value of the type \<open>error\<close>; a \<open>try\<close> block is a
    \<open>case\<close> on it.
  \<^item> An \<open>async\<close> function runs from its call to its return with nothing else
    running between: what another call does while it awaits is not part of the model.
\<close>

section \<open>Message envelope and payloads (src/lib/messages.ts)\<close>

text \<open>
  JavaScript numbers that the feeds carry are modelled as rationals: they are only
  stored, compared and passed on. Counters and millisecond delays are natural numbers;
  the values the configuration gives stay far inside the range where a double is exact.
  The index and fuel fields are strings: the source casts the API's strings to the
  union types without looking at them.
\<close>

type_synonym number = rat

record CarbonIntensityData =
  periodStart :: string
  periodEnd :: string
  forecast :: number
  actual :: "number option"
  index :: string

record GenerationMixEntry =
  fuel :: string
  percentage :: number

record CarbonGenerationData =
  timestamp :: string
  mix :: "GenerationMixEntry list"

record Coordinates =
  lat :: number
  lon :: number

record WeatherLocation =
  city :: string
  country :: string
  coordinates :: Coordinates

record Temperature =
  current :: number
  feelsLike :: number

record Wind =
  speed :: number
  direction :: number

record WeatherCondition =
  main :: string
  description :: string

record WeatherCurrentData =
  location :: WeatherLocation
  observedAt :: string
  temperature :: Temperature
  humidity :: number
  pressure :: number
  wind :: Wind
  condition :: WeatherCondition

text \<open>
  The envelope's \<open>data\<close> is of type \<open>unknown\<close> in the source. The ingesters put
  a value of one of the three payload interfaces there, and those are its values in the
  envelopes they build. The consumers read what \<open>JSON.parse\<close> returns; they are
  modelled on JSON values, further down.
\<close>

datatype payload =
  Intensity CarbonIntensityData
| Generation CarbonGenerationData
| Weather WeatherCurrentData

record MessageEnvelope =
  env_id :: string
  env_source :: string
  env_type :: string
  env_timestamp :: string
  env_data :: payload

definition CARBON_INGESTER :: string where
  "CARBON_INGESTER = ''carbon-ingester''"

definition WEATHER_INGESTER :: string where
  "WEATHER_INGESTER = ''weather-ingester''"

definition MESSAGE_TYPES_CARBON_INTENSITY :: string where
  "MESSAGE_TYPES_CARBON_INTENSITY = ''feed.carbon.intensity''"

definition MESSAGE_TYPES_CARBON_GENERATION :: string where
  "MESSAGE_TYPES_CARBON_GENERATION = ''feed.carbon.generation''"

definition MESSAGE_TYPES_WEATHER_CURRENT :: string where
  "MESSAGE_TYPES_WEATHER_CURRENT = ''feed.weather.current''"

record CreateEnvelopeOptions =
  opt_source :: string
  opt_type :: string
  opt_data :: payload

text \<open>
  \<open>createEnvelope\<close> calls \<open>randomUUID()\<close> and \<open>new Date().toISOString()\<close>; both
  results are arguments here.
\<close>

definition createEnvelope :: "string \<Rightarrow> string \<Rightarrow> CreateEnvelopeOptions \<Rightarrow> MessageEnvelope" where
  "createEnvelope uuid now options =
     \<lparr> env_id = uuid,
       env_source = opt_source options,
       env_type = opt_type options,
       env_timestamp = now,
       env_data = opt_data options \<rparr>"

definition createCarbonIntensityMessage :: "string \<Rightarrow> string \<Rightarrow> CarbonIntensityData \<Rightarrow> MessageEnvelope" where
  "createCarbonIntensityMessage uuid now d =
     createEnvelope uuid now
       \<lparr> opt_source = CARBON_INGESTER,
         opt_type = MESSAGE_TYPES_CARBON_INTENSITY,
         opt_data = Intensity d \<rparr>"

definition createCarbonGenerationMessage :: "string \<Rightarrow> string \<Rightarrow> CarbonGenerationData \<Rightarrow> MessageEnvelope" where
  "createCarbonGenerationMessage uuid now d =
     createEnvelope uuid now
       \<lparr> opt_source = CARBON_INGESTER,
         opt_type = MESSAGE_TYPES_CARBON_GENERATION,
         opt_data = Generation d \<rparr>"

definition createWeatherCurrentMessage :: "string \<Rightarrow> string \<Rightarrow> WeatherCurrentData \<Rightarrow> MessageEnvelope" where
  "createWeatherCurrentMessage uuid now d =
     createEnvelope uuid now
       \<lparr> opt_source = WEATHER_INGESTER,
         opt_type = MESSAGE_TYPES_WEATHER_CURRENT,
         opt_data = Weather d \<rparr>"

section \<open>Topology constants (the topology module)\<close>

definition EXCHANGES_TOPIC :: string where
  "EXCHANGES_TOPIC = ''feeds.topic''"

definition ROUTING_KEYS_CARBON_INTENSITY :: string where
  "ROUTING_KEYS_CARBON_INTENSITY = ''feed.carbon.intensity''"

definition ROUTING_KEYS_CARBON_GENERATION :: string where
  "ROUTING_KEYS_CARBON_GENERATION = ''feed.carbon.generation''"

definition ROUTING_KEYS_WEATHER_CURRENT :: string where
  "ROUTING_KEYS_WEATHER_CURRENT = ''feed.weather.current''"

section \<open>Errors, HTTP results and effects shared by the ingesters\<close>

text \<open>
  Every \<open>throw\<close> of the source is a value. \<open>HttpError st txt\<close> is the
  \<open>Error\<close> whose message is built from the status and the status text;
  \<open>FetchRejected\<close> is the rejection of \<open>fetch\<close> itself, \<open>BodyRejected\<close> the
  rejection of \<open>response.json()\<close>, \<open>FailedToConnect n msg\<close> the connection manager's
  final error, built from its retry limit and the last attempt's message.
\<close>

datatype error =
  Error string
| HttpError nat string
| FetchRejected string
| BodyRejected
| TypeError
| RangeError
| RateLimitError
| SyntaxError
| FailedToConnect nat string

datatype 'j http_result =
  NetworkFailure string
| HttpResponse nat string "'j option"

definition response_ok :: "nat \<Rightarrow> bool" where
  "response_ok st = (200 \<le> st \<and> st \<le> 299)"

type_synonym Channel = nat

record PublishOptions =
  contentType :: string
  contentEncoding :: string
  deliveryMode :: nat
  messageId :: string
  props_timestamp :: nat
  appId :: string

datatype poller = PollIntensity | PollGeneration | PollWeather

text \<open>
  What an activation of a polling function does to the outside: a publish on a channel
  (exchange, routing key, the envelope that is serialised, the properties), a sleep, a
  direct call of a polling function after the sleep, a timer set for one.
\<close>

datatype effect =
  Publish Channel string string MessageEnvelope PublishOptions
| Sleep nat
| Call poller
| SetTimeout poller nat

datatype Timeout = Timeout poller nat

section \<open>Carbon ingester (src/ingesters/carbon.ts)\<close>

record carbon_config =
  intensityPollInterval :: nat
  generationPollInterval :: nat
  baseRetryDelay :: nat
  maxRetryDelay :: nat

text \<open>The two poll intervals are read from the process environment.\<close>

definition CARBON_CONFIG :: "nat \<Rightarrow> nat \<Rightarrow> carbon_config" where
  "CARBON_CONFIG ipi gpi =
     \<lparr> intensityPollInterval = ipi,
       generationPollInterval = gpi,
       baseRetryDelay = 5000,
       maxRetryDelay = 300000 \<rparr>"

record ApiIntensity =
  api_forecast :: number
  api_actual :: "number option"
  api_index :: string

record ApiIntensityEntry =
  api_from :: string
  api_to :: string
  api_intensity :: ApiIntensity

record IntensityApiResponse =
  intensity_data :: "ApiIntensityEntry list"

record ApiGenerationEntry =
  api_fuel :: string
  api_perc :: number

record GenerationApiResponse =
  generationmix :: "ApiGenerationEntry list"

record carbon_state =
  channel :: "Channel option"
  intensityFailures :: nat
  generationFailures :: nat
  intensityTimer :: "Timeout option"
  generationTimer :: "Timeout option"
  isShuttingDown :: bool

text \<open>
  What one activation of a polling function reads from the outside: the outcome of the
  HTTP request, the clock when \<open>fetchGeneration\<close> stamps its result, the fresh UUID
  and the clock of \<open>createEnvelope\<close>, the clock in milliseconds at the publish, and
  the outcome of \<open>channel.publish\<close>: the error it throws (the broker client's does on a
  channel that has closed), \<open>None\<close> when it returns.
\<close>

record 'j poll_env =
  http :: "'j http_result"
  fetched_iso :: string
  uuid :: string
  now_iso :: string
  now_ms :: nat
  publish_throws :: "error option"

definition fetchIntensity :: "IntensityApiResponse http_result \<Rightarrow> error + CarbonIntensityData" where
  "fetchIntensity r =
     (case r of
        NetworkFailure m \<Rightarrow> Inl (FetchRejected m)
      | HttpResponse st txt body \<Rightarrow>
          if \<not> response_ok st then Inl (HttpError st txt)
          else (case body of
                  None \<Rightarrow> Inl BodyRejected
                | Some json \<Rightarrow>
                    (case intensity_data json of
                       [] \<Rightarrow> Inl TypeError
                     | entry # _ \<Rightarrow>
                         Inr \<lparr> periodStart = api_from entry,
                               periodEnd = api_to entry,
                               forecast = api_forecast (api_intensity entry),
                               actual = api_actual (api_intensity entry),
                               index = api_index (api_intensity entry) \<rparr>)))"

definition fetchGeneration :: "string \<Rightarrow> GenerationApiResponse http_result \<Rightarrow> error + CarbonGenerationData" where
  "fetchGeneration now r =
     (case r of
        NetworkFailure m \<Rightarrow> Inl (FetchRejected m)
      | HttpResponse st txt body \<Rightarrow>
          if \<not> response_ok st then Inl (HttpError st txt)
          else (case body of
                  None \<Rightarrow> Inl BodyRejected
                | Some json \<Rightarrow>
                    Inr \<lparr> timestamp = now,
                          mix = map (\<lambda>entry. \<lparr> fuel = api_fuel entry, percentage = api_perc entry \<rparr>)
                                  (generationmix json) \<rparr>))"

text \<open>
  \<open>publishMessage\<close> throws when the module's channel variable is null; otherwise it
  hands the serialised envelope to \<open>channel.publish\<close>. When that call throws, the error
  is \<open>publishMessage\<close>'s and nothing was sent; when it returns, the publish is the
  effect. The module assigns its channel variable once, in \<open>main\<close>, before the first
  poll, so a channel that closes later stays in the variable.
\<close>

definition carbon_publishMessage ::
  "Channel option \<Rightarrow> error option \<Rightarrow> nat \<Rightarrow> MessageEnvelope \<Rightarrow> string \<Rightarrow> error + effect list" where
  "carbon_publishMessage ch thrown ms message routingKey =
     (case ch of
        None \<Rightarrow> Inl (Error ''Channel not available'')
      | Some c \<Rightarrow>
          (case thrown of
             Some e \<Rightarrow> Inl e
           | None \<Rightarrow>
               Inr [Publish c EXCHANGES_TOPIC routingKey message
                      \<lparr> contentType = ''application/json'',
                        contentEncoding = ''utf-8'',
                        deliveryMode = 2,
                        messageId = env_id message,
                        props_timestamp = ms div 1000,
                        appId = CARBON_INGESTER \<rparr>]))"

definition carbon_calculateBackoff :: "carbon_config \<Rightarrow> nat \<Rightarrow> nat" where
  "carbon_calculateBackoff cfg failures =
     min (baseRetryDelay cfg * 2 ^ failures) (maxRetryDelay cfg)"

text \<open>
  One activation of \<open>pollIntensity\<close>, up to the point where it has set the timer or
  called itself again after the sleep. The \<open>try\<close> block is the sum-typed chain of
  fetch, envelope creation and publish; the \<open>catch\<close> block takes every error alike.
\<close>

definition pollIntensity ::
  "carbon_config \<Rightarrow> IntensityApiResponse poll_env \<Rightarrow> carbon_state \<Rightarrow> carbon_state \<times> effect list" where
  "pollIntensity cfg env s =
     (if isShuttingDown s then (s, [])
      else
        (case (case fetchIntensity (http env) of
                 Inl e \<Rightarrow> Inl e
               | Inr d \<Rightarrow>
                   carbon_publishMessage (channel s) (publish_throws env) (now_ms env)
                     (createCarbonIntensityMessage (uuid env) (now_iso env) d)
                     ROUTING_KEYS_CARBON_INTENSITY) of
           Inr published \<Rightarrow>
             (let s1 = s\<lparr>intensityFailures := 0\<rparr> in
              if \<not> isShuttingDown s1
              then (s1\<lparr>intensityTimer := Some (Timeout PollIntensity (intensityPollInterval cfg))\<rparr>,
                    published @ [SetTimeout PollIntensity (intensityPollInterval cfg)])
              else (s1, published))
         | Inl e \<Rightarrow>
             (let s1 = s\<lparr>intensityFailures := intensityFailures s + 1\<rparr>;
                  backoff = carbon_calculateBackoff cfg (intensityFailures s1)
              in (s1, Sleep backoff # (if \<not> isShuttingDown s1 then [Call PollIntensity] else [])))))"

definition pollGeneration ::
  "carbon_config \<Rightarrow> GenerationApiResponse poll_env \<Rightarrow> carbon_state \<Rightarrow> carbon_state \<times> effect list" where
  "pollGeneration cfg env s =
     (if isShuttingDown s then (s, [])
      else
        (case (case fetchGeneration (fetched_iso env) (http env) of
                 Inl e \<Rightarrow> Inl e
               | Inr d \<Rightarrow>
                   carbon_publishMessage (channel s) (publish_throws env) (now_ms env)
                     (createCarbonGenerationMessage (uuid env) (now_iso env) d)
                     ROUTING_KEYS_CARBON_GENERATION) of
           Inr published \<Rightarrow>
             (let s1 = s\<lparr>generationFailures := 0\<rparr> in
              if \<not> isShuttingDown s1
              then (s1\<lparr>generationTimer := Some (Timeout PollGeneration (generationPollInterval cfg))\<rparr>,
                    published @ [SetTimeout PollGeneration (generationPollInterval cfg)])
              else (s1, published))
         | Inl e \<Rightarrow>
             (let s1 = s\<lparr>generationFailures := generationFailures s + 1\<rparr>;
                  backoff = carbon_calculateBackoff cfg (generationFailures s1)
              in (s1, Sleep backoff # (if \<not> isShuttingDown s1 then [Call PollGeneration] else [])))))"

text \<open>
  The polling cycle: each activation ends by calling the function again after the sleep
  or by setting the timer that will call it, so a run of the cycle is the activations
  one after the other, each with what it reads from the outside. An activation that
  finds the shutdown flag set does nothing.
\<close>

fun intensityCycle ::
  "carbon_config \<Rightarrow> IntensityApiResponse poll_env list \<Rightarrow> carbon_state \<Rightarrow> carbon_state \<times> effect list" where
  "intensityCycle cfg [] s = (s, [])"
| "intensityCycle cfg (env # envs) s =
     (case pollIntensity cfg env s of
        (s1, effs) \<Rightarrow> (case intensityCycle cfg envs s1 of (s2, effs') \<Rightarrow> (s2, effs @ effs')))"

fun generationCycle ::
  "carbon_config \<Rightarrow> GenerationApiResponse poll_env list \<Rightarrow> carbon_state \<Rightarrow> carbon_state \<times> effect list" where
  "generationCycle cfg [] s = (s, [])"
| "generationCycle cfg (env # envs) s =
     (case pollGeneration cfg env s of
        (s1, effs) \<Rightarrow> (case generationCycle cfg envs s1 of (s2, effs') \<Rightarrow> (s2, effs @ effs')))"

section \<open>Weather ingester (the weather module)\<close>

text \<open>
  Fields that several modules name alike carry the module's prefix here
  (\<open>weather_channel\<close> is the weather module's \<open>channel\<close>, and so on).
\<close>

record weather_config =
  pollInterval :: nat
  weather_baseRetryDelay :: nat
  weather_maxRetryDelay :: nat
  rateLimitDelay :: nat

definition WEATHER_CONFIG :: "nat \<Rightarrow> weather_config" where
  "WEATHER_CONFIG interval =
     \<lparr> pollInterval = interval,
       weather_baseRetryDelay = 10000,
       weather_maxRetryDelay = 600000,
       rateLimitDelay = 60000 \<rparr>"

record WeatherApiResponse =
  coord_lat :: number
  coord_lon :: number
  api_weather :: "WeatherCondition list"
  main_temp :: number
  main_feels_like :: number
  main_humidity :: number
  main_pressure :: number
  wind_speed :: number
  wind_deg :: number
  dt :: int
  api_name :: string
  sys_country :: string

record weather_state =
  weather_channel :: "Channel option"
  failures :: nat
  pollTimer :: "Timeout option"
  weather_isShuttingDown :: bool

text \<open>
  \<open>toISOString\<close> is the platform's formatter, an argument here; it throws a
  \<open>RangeError\<close> on a time value outside the range of \<open>Date\<close>, which is checked before it
  is called. The fields of the result are evaluated in the order of the object literal.
\<close>

definition fetchWeather :: "(int \<Rightarrow> string) \<Rightarrow> WeatherApiResponse http_result \<Rightarrow> error + WeatherCurrentData" where
  "fetchWeather toISOString r =
     (case r of
        NetworkFailure m \<Rightarrow> Inl (FetchRejected m)
      | HttpResponse st txt body \<Rightarrow>
          if st = 429 then Inl RateLimitError
          else if st = 401 then Inl (Error ''Invalid API key (401)'')
          else if \<not> response_ok st then Inl (HttpError st txt)
          else (case body of
                  None \<Rightarrow> Inl BodyRejected
                | Some json \<Rightarrow>
                    if \<bar>dt json * 1000\<bar> > 8640000000000000 then Inl RangeError
                    else (case api_weather json of
                            [] \<Rightarrow> Inl TypeError
                          | w # _ \<Rightarrow>
                              Inr \<lparr> location =
                                      \<lparr> city = api_name json,
                                        country = sys_country json,
                                        coordinates = \<lparr> lat = coord_lat json, lon = coord_lon json \<rparr> \<rparr>,
                                    observedAt = toISOString (dt json * 1000),
                                    temperature =
                                      \<lparr> current = main_temp json, feelsLike = main_feels_like json \<rparr>,
                                    humidity = main_humidity json,
                                    pressure = main_pressure json,
                                    wind = \<lparr> speed = wind_speed json, direction = wind_deg json \<rparr>,
                                    condition = \<lparr> main = main w, description = description w \<rparr> \<rparr>)))"

definition weather_publishMessage ::
  "Channel option \<Rightarrow> error option \<Rightarrow> nat \<Rightarrow> MessageEnvelope \<Rightarrow> string \<Rightarrow> error + effect list" where
  "weather_publishMessage ch thrown ms message routingKey =
     (case ch of
        None \<Rightarrow> Inl (Error ''Channel not available'')
      | Some c \<Rightarrow>
          (case thrown of
             Some e \<Rightarrow> Inl e
           | None \<Rightarrow>
               Inr [Publish c EXCHANGES_TOPIC routingKey message
                      \<lparr> contentType = ''application/json'',
                        contentEncoding = ''utf-8'',
                        deliveryMode = 2,
                        messageId = env_id message,
                        props_timestamp = ms div 1000,
                        appId = WEATHER_INGESTER \<rparr>]))"

definition weather_calculateBackoff :: "weather_config \<Rightarrow> nat \<Rightarrow> nat" where
  "weather_calculateBackoff cfg failureCount =
     min (weather_baseRetryDelay cfg * 2 ^ failureCount) (weather_maxRetryDelay cfg)"

definition pollWeather ::
  "weather_config \<Rightarrow> (int \<Rightarrow> string) \<Rightarrow> WeatherApiResponse poll_env \<Rightarrow> weather_state
     \<Rightarrow> weather_state \<times> effect list" where
  "pollWeather cfg toISOString env s =
     (if weather_isShuttingDown s then (s, [])
      else
        (case (case fetchWeather toISOString (http env) of
                 Inl e \<Rightarrow> Inl e
               | Inr d \<Rightarrow>
                   weather_publishMessage (weather_channel s) (publish_throws env) (now_ms env)
                     (createWeatherCurrentMessage (uuid env) (now_iso env) d)
                     ROUTING_KEYS_WEATHER_CURRENT) of
           Inr published \<Rightarrow>
             (let s1 = s\<lparr>failures := 0\<rparr> in
              if \<not> weather_isShuttingDown s1
              then (s1\<lparr>pollTimer := Some (Timeout PollWeather (pollInterval cfg))\<rparr>,
                    published @ [SetTimeout PollWeather (pollInterval cfg)])
              else (s1, published))
         | Inl e \<Rightarrow>
             if e = RateLimitError
             then (s, Sleep (rateLimitDelay cfg) #
                        (if \<not> weather_isShuttingDown s then [Call PollWeather] else []))
             else
               (let s1 = s\<lparr>failures := failures s + 1\<rparr>;
                    backoff = weather_calculateBackoff cfg (failures s1)
                in (s1, Sleep backoff # (if \<not> weather_isShuttingDown s1 then [Call PollWeather] else [])))))"

fun weatherCycle ::
  "weather_config \<Rightarrow> (int \<Rightarrow> string) \<Rightarrow> WeatherApiResponse poll_env list \<Rightarrow> weather_state
     \<Rightarrow> weather_state \<times> effect list" where
  "weatherCycle cfg toISOString [] s = (s, [])"
| "weatherCycle cfg toISOString (env # envs) s =
     (case pollWeather cfg toISOString env s of
        (s1, effs) \<Rightarrow>
          (case weatherCycle cfg toISOString envs s1 of (s2, effs') \<Rightarrow> (s2, effs @ effs')))"

text \<open>The envelopes an effect list publishes, in order, and the delays it sleeps.\<close>

fun published :: "effect list \<Rightarrow> MessageEnvelope list" where
  "published [] = []"
| "published (Publish c ex rk m opts # effs) = m # published effs"
| "published (_ # effs) = published effs"

fun sleeps :: "effect list \<Rightarrow> nat list" where
  "sleeps [] = []"
| "sleeps (Sleep d # effs) = d # sleeps effs"
| "sleeps (_ # effs) = sleeps effs"

section \<open>Connection manager (the connection module)\<close>

type_synonym AmqpConnection = nat

type_synonym waiter = nat

text \<open>
  An \<open>async\<close> function returns a promise: resolved with a value, rejected with an
  error, or left pending (the caller of \<open>connect\<close> who finds an attempt in flight is
  settled later, through the listeners it registered).
\<close>

datatype 'a promise = Resolved 'a | Rejected error | Pending

record ConnectionManagerOptions =
  options_url :: string
  options_maxRetries :: "nat option"
  options_initialRetryDelay :: "number option"
  options_maxRetryDelay :: "number option"

record ConnectionManager =
  url :: string
  maxRetries :: nat
  initialRetryDelay :: number
  cm_maxRetryDelay :: number
  connection :: "AmqpConnection option"
  cm_channel :: "Channel option"
  isConnecting :: bool
  isClosed :: bool
  retryCount :: nat
  connectionListeners :: "waiter list"
  errorListeners :: "waiter list"

definition new_ConnectionManager :: "ConnectionManagerOptions \<Rightarrow> ConnectionManager" where
  "new_ConnectionManager options =
     \<lparr> url = options_url options,
       maxRetries = (case options_maxRetries options of None \<Rightarrow> 10 | Some n \<Rightarrow> n),
       initialRetryDelay = (case options_initialRetryDelay options of None \<Rightarrow> 1000 | Some d \<Rightarrow> d),
       cm_maxRetryDelay = (case options_maxRetryDelay options of None \<Rightarrow> 30000 | Some d \<Rightarrow> d),
       connection = None,
       cm_channel = None,
       isConnecting = False,
       isClosed = False,
       retryCount = 0,
       connectionListeners = [],
       errorListeners = [] \<rparr>"

text \<open>
  The manager's calls to the outside: a connection attempt, a sleep, the listeners it
  calls, the channel it creates, the two close calls (each with what the call answered).
\<close>

datatype cm_effect =
  AmqpConnect string
| CmSleep number
| NotifyConnection waiter AmqpConnection
| NotifyError waiter error
| CreateChannel AmqpConnection
| ChannelClose Channel "error option"
| ConnectionClose AmqpConnection "error option"

definition cm_calculateBackoff :: "ConnectionManager \<Rightarrow> number" where
  "cm_calculateBackoff m =
     min (initialRetryDelay m * power_int 2 (int (retryCount m) - 1)) (cm_maxRetryDelay m)"

text \<open>
  The \<open>while\<close> loop of \<open>connect\<close>. \<open>amqp i\<close> is what the \<open>i\<close>-th call of
  \<open>amqp.connect\<close> of this run answers: a connection, or the message of the error it
  rejects with.
\<close>

function connect_loop ::
  "(nat \<Rightarrow> string + AmqpConnection) \<Rightarrow> nat \<Rightarrow> ConnectionManager
     \<Rightarrow> AmqpConnection promise \<times> ConnectionManager \<times> cm_effect list" where
  "connect_loop amqp i m =
     (if retryCount m \<le> maxRetries m \<and> \<not> isClosed m
      then
        (case amqp i of
           Inr conn \<Rightarrow>
             (Resolved conn,
              m\<lparr>connection := Some conn, retryCount := 0, isConnecting := False,
                connectionListeners := []\<rparr>,
              AmqpConnect (url m) # map (\<lambda>w. NotifyConnection w conn) (connectionListeners m))
         | Inl msg \<Rightarrow>
             if retryCount m + 1 > maxRetries m
             then
               (Rejected (FailedToConnect (maxRetries m) msg),
                m\<lparr>retryCount := retryCount m + 1, isConnecting := False, errorListeners := []\<rparr>,
                AmqpConnect (url m) #
                  map (\<lambda>w. NotifyError w (FailedToConnect (maxRetries m) msg)) (errorListeners m))
             else
               (case connect_loop amqp (i + 1) (m\<lparr>retryCount := retryCount m + 1\<rparr>) of
                  (r, m', effs) \<Rightarrow>
                    (r, m',
                     AmqpConnect (url m) #
                       CmSleep (cm_calculateBackoff (m\<lparr>retryCount := retryCount m + 1\<rparr>)) # effs)))
      else (Rejected (Error ''Connection aborted''), m, []))"
  by pat_completeness auto
termination
  by (relation "measure (\<lambda>(amqp, i, m). maxRetries m + 1 - retryCount m)") auto

definition connect ::
  "(nat \<Rightarrow> string + AmqpConnection) \<Rightarrow> waiter \<Rightarrow> ConnectionManager
     \<Rightarrow> AmqpConnection promise \<times> ConnectionManager \<times> cm_effect list" where
  "connect amqp w m =
     (case connection m of
        Some c \<Rightarrow> (Resolved c, m, [])
      | None \<Rightarrow>
          if isConnecting m
          then (Pending,
                m\<lparr>connectionListeners := connectionListeners m @ [w],
                  errorListeners := errorListeners m @ [w]\<rparr>,
                [])
          else connect_loop amqp 0 (m\<lparr>isConnecting := True, isClosed := False\<rparr>))"

definition getChannel ::
  "(nat \<Rightarrow> string + AmqpConnection) \<Rightarrow> (AmqpConnection \<Rightarrow> error + Channel) \<Rightarrow> waiter
     \<Rightarrow> ConnectionManager \<Rightarrow> Channel promise \<times> ConnectionManager \<times> cm_effect list" where
  "getChannel amqp createChannel w m =
     (case cm_channel m of
        Some ch \<Rightarrow> (Resolved ch, m, [])
      | None \<Rightarrow>
          (case connect amqp w m of
             (Resolved c, m', effs) \<Rightarrow>
               (case createChannel c of
                  Inr ch \<Rightarrow> (Resolved ch, m'\<lparr>cm_channel := Some ch\<rparr>, effs @ [CreateChannel c])
                | Inl e \<Rightarrow> (Rejected e, m', effs @ [CreateChannel c]))
           | (Rejected e, m', effs) \<Rightarrow> (Rejected e, m', effs)
           | (Pending, m', effs) \<Rightarrow> (Pending, m', effs)))"

text \<open>The two handlers \<open>getChannel\<close> puts on the channel it created.\<close>

definition channel_on_error :: "ConnectionManager \<Rightarrow> ConnectionManager" where
  "channel_on_error m = m\<lparr>cm_channel := None\<rparr>"

definition channel_on_close :: "ConnectionManager \<Rightarrow> ConnectionManager" where
  "channel_on_close m = m\<lparr>cm_channel := None\<rparr>"

text \<open>
  \<open>close\<close>: each close call is inside its own \<open>try\<close> with an empty \<open>catch\<close>, so
  what the call answers (\<open>Some e\<close> when it rejects) changes nothing but the record of it.
\<close>

definition close ::
  "(Channel \<Rightarrow> error option) \<Rightarrow> (AmqpConnection \<Rightarrow> error option) \<Rightarrow> ConnectionManager
     \<Rightarrow> unit promise \<times> ConnectionManager \<times> cm_effect list" where
  "close channelClose connectionClose m =
     (let m1 = m\<lparr>isClosed := True\<rparr>;
          (m2, effs1) =
            (case cm_channel m1 of
               Some ch \<Rightarrow> (m1\<lparr>cm_channel := None\<rparr>, [ChannelClose ch (channelClose ch)])
             | None \<Rightarrow> (m1, []));
          (m3, effs2) =
            (case connection m2 of
               Some c \<Rightarrow> (m2\<lparr>connection := None\<rparr>, [ConnectionClose c (connectionClose c)])
             | None \<Rightarrow> (m2, []))
      in (Resolved (), m3, effs1 @ effs2))"

definition isConnected :: "ConnectionManager \<Rightarrow> bool" where
  "isConnected m = (connection m \<noteq> None \<and> \<not> isClosed m)"

text \<open>
  \<open>handleDisconnect\<close> starts \<open>connect\<close> in the background and logs its rejection; the
  two handlers \<open>connect\<close> puts on a connection it made call it.
\<close>

definition handleDisconnect ::
  "(nat \<Rightarrow> string + AmqpConnection) \<Rightarrow> waiter \<Rightarrow> ConnectionManager
     \<Rightarrow> ConnectionManager \<times> cm_effect list" where
  "handleDisconnect amqp w m =
     (let m1 = m\<lparr>connection := None, cm_channel := None\<rparr> in
      if \<not> isClosed m1
      then (case connect amqp w m1 of (r, m2, effs) \<Rightarrow> (m2, effs))
      else (m1, []))"

definition connection_on_error ::
  "(nat \<Rightarrow> string + AmqpConnection) \<Rightarrow> waiter \<Rightarrow> ConnectionManager
     \<Rightarrow> ConnectionManager \<times> cm_effect list" where
  "connection_on_error amqp w m = handleDisconnect amqp w m"

definition connection_on_close ::
  "(nat \<Rightarrow> string + AmqpConnection) \<Rightarrow> waiter \<Rightarrow> ConnectionManager
     \<Rightarrow> ConnectionManager \<times> cm_effect list" where
  "connection_on_close amqp w m =
     (if \<not> isClosed m then handleDisconnect amqp w m else (m, []))"

text \<open>
  The effects of the failed rounds \<open>a\<close> to \<open>b - 1\<close> of the loop: in round \<open>k\<close>
  an attempt, then the sleep before the \<open>k\<close>-th retry.
\<close>

definition retry_effects :: "ConnectionManager \<Rightarrow> nat \<Rightarrow> nat \<Rightarrow> cm_effect list" where
  "retry_effects m a b =
     concat (map (\<lambda>k. [AmqpConnect (url m),
                         CmSleep (min (initialRetryDelay m * 2 ^ (k - 1)) (cm_maxRetryDelay m))])
                 [a ..< b])"

fun cm_sleeps :: "cm_effect list \<Rightarrow> number list" where
  "cm_sleeps [] = []"
| "cm_sleeps (CmSleep d # effs) = d # cm_sleeps effs"
| "cm_sleeps (_ # effs) = cm_sleeps effs"

fun cm_attempts :: "cm_effect list \<Rightarrow> nat" where
  "cm_attempts [] = 0"
| "cm_attempts (AmqpConnect u # effs) = Suc (cm_attempts effs)"
| "cm_attempts (_ # effs) = cm_attempts effs"

section \<open>Consumers (the logger and the aggregator modules)\<close>

text \<open>
  A delivery as the broker client hands it to the callback: the body, the routing key and
  delivery tag of its \<open>fields\<close>, the redelivered flag, and the headers of its properties.
  Both consumers read the body and the routing key only.
\<close>

record ConsumeMessage =
  content :: string
  routingKey :: string
  deliveryTag :: nat
  redelivered :: bool
  headers :: "(string \<times> nat) list"

record consumer_state =
  consumer_channel :: "Channel option"
  consumerTag :: "string option"
  consumer_isShuttingDown :: bool

subsection \<open>What \<open>JSON.parse\<close> returns, and reading it\<close>

text \<open>
  The handlers cast the result of \<open>JSON.parse\<close> to \<open>MessageEnvelope\<close> and its
  \<open>data\<close> to a payload interface; a cast checks nothing, so what they read is any JSON
  value. An object is the list of its properties, one entry for a name.
\<close>

datatype json =
  JNull
| JBool bool
| JNum number
| JStr string
| JArr "json list"
| JObj "(string \<times> json) list"

datatype js_value = Undefined | Val json

text \<open>
  \<open>v.k\<close> for the property names the handlers read (\<open>id\<close>, \<open>type\<close>, \<open>data\<close> and
  the fields of the payloads; none of them is a property that a string, a number, a
  boolean or an array has of its own): a \<open>TypeError\<close> on \<open>undefined\<close> and on
  \<open>null\<close>, the property of an object that has it, \<open>undefined\<close> otherwise.
\<close>

fun js_get :: "js_value \<Rightarrow> string \<Rightarrow> error + js_value" where
  "js_get Undefined k = Inl TypeError"
| "js_get (Val JNull) k = Inl TypeError"
| "js_get (Val (JObj props)) k = Inr (case map_of props k of None \<Rightarrow> Undefined | Some v \<Rightarrow> Val v)"
| "js_get (Val v) k = Inr Undefined"

text \<open>\<open>v ?? d\<close>.\<close>

fun nullish_or :: "js_value \<Rightarrow> json \<Rightarrow> js_value" where
  "nullish_or Undefined d = Val d"
| "nullish_or (Val JNull) d = Val d"
| "nullish_or (Val v) d = Val v"

text \<open>Sequencing inside a \<open>try\<close> block: the first error ends it.\<close>

definition and_then :: "error + 'a \<Rightarrow> ('a \<Rightarrow> error + 'b) \<Rightarrow> error + 'b" where
  "and_then r f = (case r of Inl e \<Rightarrow> Inl e | Inr v \<Rightarrow> f v)"

fun map_try :: "('a \<Rightarrow> error + 'b) \<Rightarrow> 'a list \<Rightarrow> error + 'b list" where
  "map_try f [] = Inr []"
| "map_try f (x # xs) = and_then (f x) (\<lambda>y. and_then (map_try f xs) (\<lambda>ys. Inr (y # ys)))"

text \<open>
  Console lines are kept as the values their template literals interpolate, in the
  order of the template, not as the formatted text. An entry of the generation mix is
  printed from its \<open>fuel\<close>, whatever that is, and its \<open>percentage\<close>, a number.
\<close>

type_synonym mix_line = "js_value \<times> number"

datatype summary =
  IntensitySummary js_value js_value js_value
| GenerationSummary "mix_line list"
| WeatherSummary js_value js_value js_value
| UnknownSummary js_value

datatype log_line =
  LoggerReceived string string js_value
| LoggerSummary summary
| AggregatorProcessing string string js_value
| AggregatorIntensity js_value js_value js_value
| AggregatorPeriod js_value js_value
| AggregatorGeneration "mix_line list"
| AggregatorUnknown js_value

datatype consumer_effect =
  ConsoleLog log_line
| ConsoleError error
| Ack Channel ConsumeMessage
| Nack Channel ConsumeMessage bool bool

subsection \<open>The generation mix\<close>

text \<open>
  \<open>mix.sort((a, b) => b.percentage - a.percentage)\<close>.

  \<^item> On anything but an array the call throws a \<open>TypeError\<close>: \<open>undefined\<close> and
    \<open>null\<close> have no properties, and no other JSON value has a \<open>sort\<close> that is a
    function.
  \<^item> An array of fewer than two elements is returned without a call of the comparator.
  \<^item> The comparator throws a \<open>TypeError\<close> on a \<open>null\<close> element; the sort of a longer
    array calls it on every element.
  \<^item> When every element has a number for its \<open>percentage\<close> the result is the array in
    descending order of percentage, equal ones in their order in the array.
  \<^item> Otherwise the comparator returns \<open>NaN\<close> on some pair and the order of the result
    is the engine's: \<open>arraySort\<close>, an argument here, is what it returns.
\<close>

fun percentage_of :: "json \<Rightarrow> number option" where
  "percentage_of (JObj props) = (case map_of props ''percentage'' of Some (JNum p) \<Rightarrow> Some p | _ \<Rightarrow> None)"
| "percentage_of v = None"

definition percentage_key :: "json \<Rightarrow> number" where
  "percentage_key v = (case percentage_of v of Some p \<Rightarrow> p | None \<Rightarrow> 0)"

definition sortByPercentage :: "json list \<Rightarrow> json list" where
  "sortByPercentage xs = sort_key (\<lambda>e. - percentage_key e) xs"

definition sortMix :: "(json list \<Rightarrow> json list) \<Rightarrow> js_value \<Rightarrow> error + json list" where
  "sortMix arraySort v =
     (case v of
        Val (JArr xs) \<Rightarrow>
          if length xs < 2 then Inr xs
          else if JNull \<in> set xs then Inl TypeError
          else if list_all (\<lambda>x. percentage_of x \<noteq> None) xs then Inr (sortByPercentage xs)
          else Inr (arraySort xs)
      | _ \<Rightarrow> Inl TypeError)"

text \<open>
  The callback of \<open>map\<close>, \<open>(s) => `${s.fuel}: ${s.percentage.toFixed(1)}%`\<close>: a
  \<open>TypeError\<close> on a \<open>null\<close> element and on a \<open>percentage\<close> that is not a number
  (nothing else has a \<open>toFixed\<close>).
\<close>

definition formatEntry :: "json \<Rightarrow> error + mix_line" where
  "formatEntry s =
     and_then (js_get (Val s) ''fuel'') (\<lambda>fuel.
     and_then (js_get (Val s) ''percentage'') (\<lambda>p.
       case p of Val (JNum n) \<Rightarrow> Inr (fuel, n) | _ \<Rightarrow> Inl TypeError))"

subsection \<open>Logger\<close>

definition formatMessageSummary :: "(json list \<Rightarrow> json list) \<Rightarrow> json \<Rightarrow> error + summary" where
  "formatMessageSummary arraySort envelope =
     and_then (js_get (Val envelope) ''type'') (\<lambda>ty.
       if ty = Val (JStr MESSAGE_TYPES_CARBON_INTENSITY) then
         and_then (js_get (Val envelope) ''data'') (\<lambda>data.
         and_then (js_get data ''forecast'') (\<lambda>forecast.
         and_then (js_get data ''index'') (\<lambda>index.
         and_then (js_get data ''actual'') (\<lambda>actual.
           Inr (IntensitySummary forecast index (nullish_or actual (JStr ''pending'')))))))
       else if ty = Val (JStr MESSAGE_TYPES_CARBON_GENERATION) then
         and_then (js_get (Val envelope) ''data'') (\<lambda>data.
         and_then (js_get data ''mix'') (\<lambda>mix.
         and_then (sortMix arraySort mix) (\<lambda>sorted.
         and_then (map_try formatEntry (take 3 sorted)) (\<lambda>topSources.
           Inr (GenerationSummary topSources)))))
       else if ty = Val (JStr MESSAGE_TYPES_WEATHER_CURRENT) then
         and_then (js_get (Val envelope) ''data'') (\<lambda>data.
         and_then (and_then (js_get data ''location'') (\<lambda>l. js_get l ''city'')) (\<lambda>city.
         and_then (and_then (js_get data ''temperature'') (\<lambda>t. js_get t ''current'')) (\<lambda>current.
         and_then (and_then (js_get data ''condition'') (\<lambda>c. js_get c ''description'')) (\<lambda>description.
           Inr (WeatherSummary city current description)))))
       else Inr (UnknownSummary ty))"

text \<open>
  The \<open>try\<close> block of the logger's \<open>handleMessage\<close>: the effects it performed, and
  the error that ended it if one was thrown. \<open>parse\<close> is \<open>JSON.parse\<close> applied to the
  body, an argument here: \<open>None\<close> when it throws, the value otherwise. \<open>receivedAt\<close>
  is the reading of the clock. \<open>channel.ack\<close> and \<open>channel.nack\<close> are taken to return.
\<close>

definition logger_try ::
  "(string \<Rightarrow> json option) \<Rightarrow> (json list \<Rightarrow> json list) \<Rightarrow> string \<Rightarrow> Channel \<Rightarrow> ConsumeMessage
     \<Rightarrow> consumer_effect list \<times> error option" where
  "logger_try parse arraySort receivedAt ch msg =
     (case parse (content msg) of
        None \<Rightarrow> ([], Some SyntaxError)
      | Some envelope \<Rightarrow>
          (case js_get (Val envelope) ''id'' of
             Inl e \<Rightarrow> ([], Some e)
           | Inr i \<Rightarrow>
               (case formatMessageSummary arraySort envelope of
                  Inl e \<Rightarrow>
                    ([ConsoleLog (LoggerReceived receivedAt (routingKey msg) i)], Some e)
                | Inr line \<Rightarrow>
                    ([ConsoleLog (LoggerReceived receivedAt (routingKey msg) i),
                      ConsoleLog (LoggerSummary line),
                      Ack ch msg], None))))"

text \<open>
  The \<open>catch\<close> block, for whatever error the \<open>try\<close> block threw, and
  \<open>handleMessage\<close>: the effects, and the error that leaves the function (none does).
\<close>

definition logger_catch :: "Channel \<Rightarrow> ConsumeMessage \<Rightarrow> error \<Rightarrow> consumer_effect list" where
  "logger_catch ch msg e = [ConsoleError e, Nack ch msg False False]"

definition logger_handleMessage ::
  "(string \<Rightarrow> json option) \<Rightarrow> (json list \<Rightarrow> json list) \<Rightarrow> string \<Rightarrow> consumer_state
     \<Rightarrow> ConsumeMessage option \<Rightarrow> consumer_effect list \<times> error option" where
  "logger_handleMessage parse arraySort receivedAt s msg =
     (case msg of
        None \<Rightarrow> ([], None)
      | Some m \<Rightarrow>
          (case consumer_channel s of
             None \<Rightarrow> ([], None)
           | Some ch \<Rightarrow>
               (case logger_try parse arraySort receivedAt ch m of
                  (effs, None) \<Rightarrow> (effs, None)
                | (effs, Some e) \<Rightarrow> (effs @ logger_catch ch m e, None))))"

subsection \<open>Aggregator\<close>

text \<open>
  Each of the two processing functions builds its first line before it prints anything,
  so one that throws has printed nothing.
\<close>

definition processIntensity :: "js_value \<Rightarrow> error + consumer_effect list" where
  "processIntensity data =
     and_then (js_get data ''forecast'') (\<lambda>forecast.
     and_then (js_get data ''actual'') (\<lambda>actual.
     and_then (js_get data ''index'') (\<lambda>index.
     and_then (js_get data ''periodStart'') (\<lambda>periodStart.
     and_then (js_get data ''periodEnd'') (\<lambda>periodEnd.
       Inr [ConsoleLog (AggregatorIntensity forecast (nullish_or actual (JStr ''pending'')) index),
            ConsoleLog (AggregatorPeriod periodStart periodEnd)])))))"

definition processGeneration :: "(json list \<Rightarrow> json list) \<Rightarrow> js_value \<Rightarrow> error + consumer_effect list" where
  "processGeneration arraySort data =
     and_then (js_get data ''mix'') (\<lambda>mix.
     and_then (sortMix arraySort mix) (\<lambda>sorted.
     and_then (map_try formatEntry sorted) (\<lambda>formatted.
       Inr [ConsoleLog (AggregatorGeneration formatted)])))"

text \<open>The \<open>switch\<close> of \<open>handleMessage\<close> on the envelope's type.\<close>

definition aggregator_switch :: "(json list \<Rightarrow> json list) \<Rightarrow> json \<Rightarrow> error + consumer_effect list" where
  "aggregator_switch arraySort envelope =
     and_then (js_get (Val envelope) ''type'') (\<lambda>ty.
       if ty = Val (JStr MESSAGE_TYPES_CARBON_INTENSITY) then
         and_then (js_get (Val envelope) ''data'') processIntensity
       else if ty = Val (JStr MESSAGE_TYPES_CARBON_GENERATION) then
         and_then (js_get (Val envelope) ''data'') (processGeneration arraySort)
       else Inr [ConsoleLog (AggregatorUnknown ty)])"

definition aggregator_try ::
  "(string \<Rightarrow> json option) \<Rightarrow> (json list \<Rightarrow> json list) \<Rightarrow> string \<Rightarrow> Channel \<Rightarrow> ConsumeMessage
     \<Rightarrow> consumer_effect list \<times> error option" where
  "aggregator_try parse arraySort CONSUMER_ID ch msg =
     (case parse (content msg) of
        None \<Rightarrow> ([], Some SyntaxError)
      | Some envelope \<Rightarrow>
          (case js_get (Val envelope) ''id'' of
             Inl e \<Rightarrow> ([], Some e)
           | Inr i \<Rightarrow>
               (case aggregator_switch arraySort envelope of
                  Inl e \<Rightarrow>
                    ([ConsoleLog (AggregatorProcessing CONSUMER_ID (routingKey msg) i)], Some e)
                | Inr lines \<Rightarrow>
                    (ConsoleLog (AggregatorProcessing CONSUMER_ID (routingKey msg) i) # lines @ [Ack ch msg],
                     None))))"

definition aggregator_catch :: "Channel \<Rightarrow> ConsumeMessage \<Rightarrow> error \<Rightarrow> consumer_effect list" where
  "aggregator_catch ch msg e = [ConsoleError e, Nack ch msg False False]"

definition aggregator_handleMessage ::
  "(string \<Rightarrow> json option) \<Rightarrow> (json list \<Rightarrow> json list) \<Rightarrow> string \<Rightarrow> consumer_state
     \<Rightarrow> ConsumeMessage option \<Rightarrow> consumer_effect list \<times> error option" where
  "aggregator_handleMessage parse arraySort CONSUMER_ID s msg =
     (case msg of
        None \<Rightarrow> ([], None)
      | Some m \<Rightarrow>
          (case consumer_channel s of
             None \<Rightarrow> ([], None)
           | Some ch \<Rightarrow>
               (case aggregator_try parse arraySort CONSUMER_ID ch m of
                  (effs, None) \<Rightarrow> (effs, None)
                | (effs, Some e) \<Rightarrow> (effs @ aggregator_catch ch m e, None))))"

text \<open>The acknowledgements among the effects of a handler.\<close>

fun is_signal :: "consumer_effect \<Rightarrow> bool" where
  "is_signal (Ack ch m) = True"
| "is_signal (Nack ch m allUpTo requeue) = True"
| "is_signal _ = False"

definition signals :: "consumer_effect list \<Rightarrow> consumer_effect list" where
  "signals effs = filter is_signal effs"

fun is_requeue :: "consumer_effect \<Rightarrow> bool" where
  "is_requeue (Nack ch m allUpTo requeue) = requeue"
| "is_requeue _ = False"

text \<open>
  A redelivery hands the callback a new delivery of the same body; \<open>retarget\<close> reads
  an effect of the earlier delivery as the same effect for the new one: a signal is for
  the new delivery, the logger's receipt line carries the new reading of the clock.
\<close>

fun retarget :: "string \<Rightarrow> ConsumeMessage \<Rightarrow> consumer_effect \<Rightarrow> consumer_effect" where
  "retarget t' m' (Ack ch m) = Ack ch m'"
| "retarget t' m' (Nack ch m allUpTo requeue) = Nack ch m' allUpTo requeue"
| "retarget t' m' (ConsoleLog (LoggerReceived t key i)) = ConsoleLog (LoggerReceived t' key i)"
| "retarget t' m' e = e"

section \<open>Concrete inputs\<close>

text \<open>The inputs at which the theorems below are instantiated.\<close>

subsection \<open>For the ingesters\<close>

definition example_intensity_body :: IntensityApiResponse where
  "example_intensity_body =
     \<lparr> intensity_data =
         [\<lparr> api_from = ''2024-01-01T00:00Z'', api_to = ''2024-01-01T00:30Z'',
            api_intensity = \<lparr> api_forecast = 195, api_actual = Some 192, api_index = ''moderate'' \<rparr> \<rparr>] \<rparr>"

definition example_intensity_env :: "string \<Rightarrow> IntensityApiResponse poll_env" where
  "example_intensity_env u =
     \<lparr> http = HttpResponse 200 ''OK'' (Some example_intensity_body),
       fetched_iso = ''2024-01-01T00:00:59.900Z'', uuid = u,
       now_iso = ''2024-01-01T00:01:00.000Z'', now_ms = 1704067260000,
       publish_throws = None \<rparr>"

definition example_generation_env :: "string \<Rightarrow> GenerationApiResponse poll_env" where
  "example_generation_env u =
     \<lparr> http = HttpResponse 200 ''OK''
         (Some \<lparr> generationmix = [\<lparr> api_fuel = ''gas'', api_perc = 40 \<rparr>, \<lparr> api_fuel = ''wind'', api_perc = 35 \<rparr>] \<rparr>),
       fetched_iso = ''2024-01-01T00:00:59.900Z'', uuid = u,
       now_iso = ''2024-01-01T00:01:00.000Z'', now_ms = 1704067260000,
       publish_throws = None \<rparr>"

definition example_weather_body :: WeatherApiResponse where
  "example_weather_body =
     \<lparr> coord_lat = 51, coord_lon = 0,
       api_weather = [\<lparr> main = ''Clouds'', description = ''overcast clouds'' \<rparr>],
       main_temp = 12, main_feels_like = 11, main_humidity = 80, main_pressure = 1012,
       wind_speed = 4, wind_deg = 230, dt = 1704067200, api_name = ''London'', sys_country = ''GB'' \<rparr>"

definition example_weather_env :: "string \<Rightarrow> WeatherApiResponse poll_env" where
  "example_weather_env u =
     \<lparr> http = HttpResponse 200 ''OK'' (Some example_weather_body),
       fetched_iso = ''2024-01-01T00:00:59.900Z'', uuid = u,
       now_iso = ''2024-01-01T00:01:00.000Z'', now_ms = 1704067260000,
       publish_throws = None \<rparr>"

definition example_toISOString :: "int \<Rightarrow> string" where
  "example_toISOString ms = (if ms = 1704067200000 then ''2024-01-01T00:00:00.000Z'' else '''')"

definition carbon_ready :: carbon_state where
  "carbon_ready =
     \<lparr> channel = Some 1, intensityFailures = 0, generationFailures = 0,
       intensityTimer = None, generationTimer = None, isShuttingDown = False \<rparr>"

definition weather_ready :: weather_state where
  "weather_ready =
     \<lparr> weather_channel = Some 1, failures = 0, pollTimer = None, weather_isShuttingDown = False \<rparr>"

definition example_options :: "string \<Rightarrow> string \<Rightarrow> PublishOptions" where
  "example_options u app =
     \<lparr> contentType = ''application/json'', contentEncoding = ''utf-8'', deliveryMode = 2,
       messageId = u, props_timestamp = 1704067260, appId = app \<rparr>"

definition example_intensity_data :: CarbonIntensityData where
  "example_intensity_data =
     \<lparr> periodStart = ''2024-01-01T00:00Z'', periodEnd = ''2024-01-01T00:30Z'',
       forecast = 195, actual = Some 192, index = ''moderate'' \<rparr>"

definition example_intensity_message :: "string \<Rightarrow> MessageEnvelope" where
  "example_intensity_message u =
     \<lparr> env_id = u, env_source = ''carbon-ingester'', env_type = ''feed.carbon.intensity'',
       env_timestamp = ''2024-01-01T00:01:00.000Z'',
       env_data = Intensity example_intensity_data \<rparr>"

definition example_generation_message :: "string \<Rightarrow> MessageEnvelope" where
  "example_generation_message u =
     \<lparr> env_id = u, env_source = ''carbon-ingester'', env_type = ''feed.carbon.generation'',
       env_timestamp = ''2024-01-01T00:01:00.000Z'',
       env_data = Generation \<lparr> timestamp = ''2024-01-01T00:00:59.900Z'',
                               mix = [\<lparr> fuel = ''gas'', percentage = 40 \<rparr>, \<lparr> fuel = ''wind'', percentage = 35 \<rparr>] \<rparr> \<rparr>"

definition example_weather_message :: "string \<Rightarrow> MessageEnvelope" where
  "example_weather_message u =
     \<lparr> env_id = u, env_source = ''weather-ingester'', env_type = ''feed.weather.current'',
       env_timestamp = ''2024-01-01T00:01:00.000Z'',
       env_data = Weather
         \<lparr> location = \<lparr> city = ''London'', country = ''GB'', coordinates = \<lparr> lat = 51, lon = 0 \<rparr> \<rparr>,
           observedAt = ''2024-01-01T00:00:00.000Z'',
           temperature = \<lparr> current = 12, feelsLike = 11 \<rparr>,
           humidity = 80, pressure = 1012,
           wind = \<lparr> speed = 4, direction = 230 \<rparr>,
           condition = \<lparr> main = ''Clouds'', description = ''overcast clouds'' \<rparr> \<rparr> \<rparr>"

text \<open>
  An activation that finds the channel closed: \<open>channel.publish\<close> throws the broker
  client's error for an operation on a closed channel.
\<close>

definition channel_closed :: "'j poll_env \<Rightarrow> 'j poll_env" where
  "channel_closed env = env\<lparr>publish_throws := Some (Error ''Channel closed'')\<rparr>"

definition failing_intensity_env :: "IntensityApiResponse poll_env" where
  "failing_intensity_env =
     \<lparr> http = HttpResponse 503 ''Service Unavailable'' None,
       fetched_iso = ''2024-01-01T00:00:59.900Z'', uuid = ''unused'',
       now_iso = ''2024-01-01T00:01:00.000Z'', now_ms = 1704067260000,
       publish_throws = None \<rparr>"

definition failing_weather_env :: "WeatherApiResponse poll_env" where
  "failing_weather_env =
     \<lparr> http = HttpResponse 503 ''Service Unavailable'' None,
       fetched_iso = ''2024-01-01T00:00:59.900Z'', uuid = ''unused'',
       now_iso = ''2024-01-01T00:01:00.000Z'', now_ms = 1704067260000,
       publish_throws = None \<rparr>"

subsection \<open>For the connection manager\<close>

text \<open>
  A manager built with the default options; brokers that refuse every attempt, or the
  first \<open>n\<close>; close calls that return and that reject.
\<close>

definition default_manager :: ConnectionManager where
  "default_manager =
     new_ConnectionManager
       \<lparr> options_url = ''amqp://localhost'', options_maxRetries = None,
         options_initialRetryDelay = None, options_maxRetryDelay = None \<rparr>"

definition connected_manager :: ConnectionManager where
  "connected_manager = default_manager\<lparr>connection := Some 1, cm_channel := Some 1\<rparr>"

definition broker_up_after :: "nat \<Rightarrow> nat \<Rightarrow> string + AmqpConnection" where
  "broker_up_after n j = (if j < n then Inl ''ECONNREFUSED'' else Inr 7)"

definition broker_down :: "nat \<Rightarrow> string + AmqpConnection" where
  "broker_down j = Inl ''ECONNREFUSED''"

definition closes_quietly :: "nat \<Rightarrow> error option" where
  "closes_quietly x = None"

definition close_rejects :: "nat \<Rightarrow> error option" where
  "close_rejects x = Some (Error ''Channel closed'')"

definition creates_channel :: "AmqpConnection \<Rightarrow> error + Channel" where
  "creates_channel c = Inr 2"

definition closed_manager :: ConnectionManager where
  "closed_manager = fst (snd (close closes_quietly close_rejects connected_manager))"

subsection \<open>For the consumers\<close>

definition consumer_ready :: consumer_state where
  "consumer_ready =
     \<lparr> consumer_channel = Some 1, consumerTag = Some ''amq.ctag-1'', consumer_isShuttingDown = False \<rparr>"

definition consumer_not_ready :: consumer_state where
  "consumer_not_ready = consumer_ready\<lparr>consumer_channel := None\<rparr>"

text \<open>
  What \<open>JSON.parse\<close> returns on the body that \<open>example_intensity_message\<close> is
  serialised to, and on the same body with the type of a generation mix.
\<close>

definition example_intensity_json :: "string \<Rightarrow> json" where
  "example_intensity_json u =
     JObj [(''id'', JStr u),
           (''source'', JStr ''carbon-ingester''),
           (''type'', JStr ''feed.carbon.intensity''),
           (''timestamp'', JStr ''2024-01-01T00:01:00.000Z''),
           (''data'', JObj [(''periodStart'', JStr ''2024-01-01T00:00Z''),
                            (''periodEnd'', JStr ''2024-01-01T00:30Z''),
                            (''forecast'', JNum 195),
                            (''actual'', JNum 192),
                            (''index'', JStr ''moderate'')])]"

definition poison_json :: json where
  "poison_json =
     JObj [(''id'', JStr ''id-4''),
           (''source'', JStr ''carbon-ingester''),
           (''type'', JStr ''feed.carbon.generation''),
           (''timestamp'', JStr ''2024-01-01T00:01:00.000Z''),
           (''data'', JObj [(''periodStart'', JStr ''2024-01-01T00:00Z''),
                            (''periodEnd'', JStr ''2024-01-01T00:30Z''),
                            (''forecast'', JNum 195),
                            (''actual'', JNum 192),
                            (''index'', JStr ''moderate'')])]"

text \<open>
  A parser for six bodies. The two envelopes are named by what they hold; \<open>{}\<close>,
  \<open>123\<close> and \<open>null\<close> are JSON texts as they stand, none of them an envelope.
  \<open>JSON.parse\<close> throws on every other body. The engine's sort is one that leaves an
  array with an inconsistent comparator as it is.
\<close>

definition example_parse :: "string \<Rightarrow> json option" where
  "example_parse body =
     (if body = ''intensity id-1'' then Some (example_intensity_json ''id-1'')
      else if body = ''mistyped id-4'' then Some poison_json
      else if body = ''{}'' then Some (JObj [])
      else if body = ''123'' then Some (JNum 123)
      else if body = ''null'' then Some JNull
      else None)"

definition example_arraySort :: "json list \<Rightarrow> json list" where
  "example_arraySort xs = xs"

definition delivery :: "string \<Rightarrow> string \<Rightarrow> nat \<Rightarrow> ConsumeMessage" where
  "delivery body key tag =
     \<lparr> content = body, routingKey = key, deliveryTag = tag, redelivered = False, headers = [] \<rparr>"

definition redelivery :: "string \<Rightarrow> string \<Rightarrow> nat \<Rightarrow> ConsumeMessage" where
  "redelivery body key tag =
     \<lparr> content = body, routingKey = key, deliveryTag = tag, redelivered = True, headers = [] \<rparr>"
section \<open>Ingesters: what is published\<close>

lemma publishMessage_carbon_effects:
  "carbon_publishMessage ch thrown ms message rk = Inr effs \<Longrightarrow>
   Publish c ex rk' m opts \<in> set effs \<Longrightarrow> m = message \<and> rk' = rk \<and> ex = EXCHANGES_TOPIC"
  by (auto simp: carbon_publishMessage_def split: option.splits)

lemma publishMessage_weather_effects:
  "weather_publishMessage ch thrown ms message rk = Inr effs \<Longrightarrow>
   Publish c ex rk' m opts \<in> set effs \<Longrightarrow> m = message \<and> rk' = rk \<and> ex = EXCHANGES_TOPIC"
  by (auto simp: weather_publishMessage_def split: option.splits)

lemma pollIntensity_publish:
  assumes "Publish c ex rk m opts \<in> set (snd (pollIntensity cfg env s))"
  shows "env_type m = rk \<and> rk = ROUTING_KEYS_CARBON_INTENSITY \<and> ex = EXCHANGES_TOPIC"
  using assms
  by (auto simp: pollIntensity_def Let_def createCarbonIntensityMessage_def createEnvelope_def
      MESSAGE_TYPES_CARBON_INTENSITY_def ROUTING_KEYS_CARBON_INTENSITY_def
      split: if_splits sum.splits dest!: publishMessage_carbon_effects)

lemma pollGeneration_publish:
  assumes "Publish c ex rk m opts \<in> set (snd (pollGeneration cfg env s))"
  shows "env_type m = rk \<and> rk = ROUTING_KEYS_CARBON_GENERATION \<and> ex = EXCHANGES_TOPIC"
  using assms
  by (auto simp: pollGeneration_def Let_def createCarbonGenerationMessage_def createEnvelope_def
      MESSAGE_TYPES_CARBON_GENERATION_def ROUTING_KEYS_CARBON_GENERATION_def
      split: if_splits sum.splits dest!: publishMessage_carbon_effects)

lemma pollWeather_publish:
  assumes "Publish c ex rk m opts \<in> set (snd (pollWeather cfg fmt env s))"
  shows "env_type m = rk \<and> rk = ROUTING_KEYS_WEATHER_CURRENT \<and> ex = EXCHANGES_TOPIC"
  using assms
  by (auto simp: pollWeather_def Let_def createWeatherCurrentMessage_def createEnvelope_def
      MESSAGE_TYPES_WEATHER_CURRENT_def ROUTING_KEYS_WEATHER_CURRENT_def
      split: if_splits sum.splits dest!: publishMessage_weather_effects)

lemma pollIntensity_example: "pollIntensity (CARBON_CONFIG 120000 300000) (example_intensity_env ''id-1'') carbon_ready =
   (carbon_ready\<lparr>intensityTimer := Some (Timeout PollIntensity 120000)\<rparr>,
    [Publish 1 ''feeds.topic'' ''feed.carbon.intensity'' (example_intensity_message ''id-1'')
       (example_options ''id-1'' ''carbon-ingester''),
     SetTimeout PollIntensity 120000])"
  by (simp add: pollIntensity_def fetchIntensity_def carbon_publishMessage_def response_ok_def
      createCarbonIntensityMessage_def createEnvelope_def
      example_intensity_env_def example_intensity_body_def carbon_ready_def CARBON_CONFIG_def
      example_options_def example_intensity_message_def example_intensity_data_def
      CARBON_INGESTER_def MESSAGE_TYPES_CARBON_INTENSITY_def ROUTING_KEYS_CARBON_INTENSITY_def EXCHANGES_TOPIC_def)

lemma pollGeneration_example: "pollGeneration (CARBON_CONFIG 120000 300000) (example_generation_env ''id-2'') carbon_ready =
   (carbon_ready\<lparr>generationTimer := Some (Timeout PollGeneration 300000)\<rparr>,
    [Publish 1 ''feeds.topic'' ''feed.carbon.generation'' (example_generation_message ''id-2'')
       (example_options ''id-2'' ''carbon-ingester''),
     SetTimeout PollGeneration 300000])"
  by (simp add: pollGeneration_def fetchGeneration_def carbon_publishMessage_def response_ok_def
      createCarbonGenerationMessage_def createEnvelope_def
      example_generation_env_def carbon_ready_def CARBON_CONFIG_def
      example_options_def example_generation_message_def
      CARBON_INGESTER_def MESSAGE_TYPES_CARBON_GENERATION_def ROUTING_KEYS_CARBON_GENERATION_def EXCHANGES_TOPIC_def)

lemma pollWeather_example: "pollWeather (WEATHER_CONFIG 600000) example_toISOString (example_weather_env ''id-3'') weather_ready =
   (weather_ready\<lparr>pollTimer := Some (Timeout PollWeather 600000)\<rparr>,
    [Publish 1 ''feeds.topic'' ''feed.weather.current'' (example_weather_message ''id-3'')
       (example_options ''id-3'' ''weather-ingester''),
     SetTimeout PollWeather 600000])"
  by (simp add: pollWeather_def fetchWeather_def weather_publishMessage_def response_ok_def
      createWeatherCurrentMessage_def createEnvelope_def
      example_weather_env_def example_weather_body_def example_toISOString_def weather_ready_def WEATHER_CONFIG_def
      example_options_def example_weather_message_def
      WEATHER_INGESTER_def MESSAGE_TYPES_WEATHER_CURRENT_def ROUTING_KEYS_WEATHER_CURRENT_def EXCHANGES_TOPIC_def)

text \<open>
  Claim C1. Every publish an activation of one of the three polling functions performs
  carries an envelope whose \<open>type\<close> field is the routing key handed to
  \<open>channel.publish\<close>.
\<close>

theorem C1_type_equals_routing_key:
  "(Publish c ex rk m opts \<in> set (snd (pollIntensity cfg ienv s)) \<longrightarrow> env_type m = rk)
   \<and> (Publish c ex rk m opts \<in> set (snd (pollGeneration cfg genv s)) \<longrightarrow> env_type m = rk)
   \<and> (Publish c ex rk m opts \<in> set (snd (pollWeather wcfg fmt wenv ws)) \<longrightarrow> env_type m = rk)"
proof (intro conjI impI)
  assume "Publish c ex rk m opts \<in> set (snd (pollIntensity cfg ienv s))"
  then show "env_type m = rk" by (rule pollIntensity_publish [THEN conjunct1])
next
  assume "Publish c ex rk m opts \<in> set (snd (pollGeneration cfg genv s))"
  then show "env_type m = rk" by (rule pollGeneration_publish [THEN conjunct1])
next
  assume "Publish c ex rk m opts \<in> set (snd (pollWeather wcfg fmt wenv ws))"
  then show "env_type m = rk" by (rule pollWeather_publish [THEN conjunct1])
qed

theorem C1_type_equals_routing_key_witness:
  "Publish 1 ''feeds.topic'' ''feed.carbon.intensity'' (example_intensity_message ''id-1'')
       (example_options ''id-1'' ''carbon-ingester'')
     \<in> set (snd (pollIntensity (CARBON_CONFIG 120000 300000) (example_intensity_env ''id-1'') carbon_ready))
   \<and> Publish 1 ''feeds.topic'' ''feed.carbon.generation'' (example_generation_message ''id-2'')
       (example_options ''id-2'' ''carbon-ingester'')
     \<in> set (snd (pollGeneration (CARBON_CONFIG 120000 300000) (example_generation_env ''id-2'') carbon_ready))
   \<and> Publish 1 ''feeds.topic'' ''feed.weather.current'' (example_weather_message ''id-3'')
       (example_options ''id-3'' ''weather-ingester'')
     \<in> set (snd (pollWeather (WEATHER_CONFIG 600000) example_toISOString (example_weather_env ''id-3'') weather_ready))
   \<and> env_type (example_intensity_message ''id-1'') = ''feed.carbon.intensity''
   \<and> env_type (example_generation_message ''id-2'') = ''feed.carbon.generation''
   \<and> env_type (example_weather_message ''id-3'') = ''feed.weather.current''"
proof -
  have i: "Publish 1 ''feeds.topic'' ''feed.carbon.intensity'' (example_intensity_message ''id-1'')
       (example_options ''id-1'' ''carbon-ingester'')
     \<in> set (snd (pollIntensity (CARBON_CONFIG 120000 300000) (example_intensity_env ''id-1'') carbon_ready))"
    by (simp add: pollIntensity_example)
  have g: "Publish 1 ''feeds.topic'' ''feed.carbon.generation'' (example_generation_message ''id-2'')
       (example_options ''id-2'' ''carbon-ingester'')
     \<in> set (snd (pollGeneration (CARBON_CONFIG 120000 300000) (example_generation_env ''id-2'') carbon_ready))"
    by (simp add: pollGeneration_example)
  have w: "Publish 1 ''feeds.topic'' ''feed.weather.current'' (example_weather_message ''id-3'')
       (example_options ''id-3'' ''weather-ingester'')
     \<in> set (snd (pollWeather (WEATHER_CONFIG 600000) example_toISOString (example_weather_env ''id-3'') weather_ready))"
    by (simp add: pollWeather_example)
  from i C1_type_equals_routing_key [THEN conjunct1, rule_format, OF i]
       g C1_type_equals_routing_key [THEN conjunct2, THEN conjunct1, rule_format, OF g]
       w C1_type_equals_routing_key [THEN conjunct2, THEN conjunct2, rule_format, OF w]
  show ?thesis by (intro conjI)
qed

section \<open>Ingesters: an unavailable channel\<close>

lemma carbon_publishMessage_unavailable:
  "ch = None \<or> thrown \<noteq> None \<Longrightarrow> \<exists>e. carbon_publishMessage ch thrown ms message rk = Inl e"
  by (auto simp: carbon_publishMessage_def split: option.splits)

lemma weather_publishMessage_unavailable:
  "ch = None \<or> thrown \<notin> {None, Some RateLimitError} \<Longrightarrow>
   \<exists>e. weather_publishMessage ch thrown ms message rk = Inl e \<and> e \<noteq> RateLimitError"
  by (auto simp: weather_publishMessage_def split: option.splits)

lemma pollIntensity_unavailable:
  assumes "channel s = None \<or> publish_throws env \<noteq> None" and "\<not> isShuttingDown s"
  shows "pollIntensity cfg env s =
     (s\<lparr>intensityFailures := intensityFailures s + 1\<rparr>,
      [Sleep (carbon_calculateBackoff cfg (intensityFailures s + 1)), Call PollIntensity])"
proof (cases "fetchIntensity (http env)")
  case (Inl e)
  with assms(2) show ?thesis by (simp add: pollIntensity_def Let_def)
next
  case (Inr d)
  from carbon_publishMessage_unavailable [OF assms(1)]
  obtain e where "carbon_publishMessage (channel s) (publish_throws env) (now_ms env)
      (createCarbonIntensityMessage (uuid env) (now_iso env) d) ROUTING_KEYS_CARBON_INTENSITY = Inl e"
    by blast
  with Inr assms(2) show ?thesis by (simp add: pollIntensity_def Let_def)
qed

lemma pollGeneration_unavailable:
  assumes "channel s = None \<or> publish_throws env \<noteq> None" and "\<not> isShuttingDown s"
  shows "pollGeneration cfg env s =
     (s\<lparr>generationFailures := generationFailures s + 1\<rparr>,
      [Sleep (carbon_calculateBackoff cfg (generationFailures s + 1)), Call PollGeneration])"
proof (cases "fetchGeneration (fetched_iso env) (http env)")
  case (Inl e)
  with assms(2) show ?thesis by (simp add: pollGeneration_def Let_def)
next
  case (Inr d)
  from carbon_publishMessage_unavailable [OF assms(1)]
  obtain e where "carbon_publishMessage (channel s) (publish_throws env) (now_ms env)
      (createCarbonGenerationMessage (uuid env) (now_iso env) d) ROUTING_KEYS_CARBON_GENERATION = Inl e"
    by blast
  with Inr assms(2) show ?thesis by (simp add: pollGeneration_def Let_def)
qed

lemma pollWeather_unavailable:
  assumes "weather_channel s = None \<or> publish_throws env \<notin> {None, Some RateLimitError}"
    and "\<not> weather_isShuttingDown s"
    and "fetchWeather fmt (http env) \<noteq> Inl RateLimitError"
  shows "pollWeather cfg fmt env s =
     (s\<lparr>failures := failures s + 1\<rparr>,
      [Sleep (weather_calculateBackoff cfg (failures s + 1)), Call PollWeather])"
proof (cases "fetchWeather fmt (http env)")
  case (Inl e)
  with assms(2,3) show ?thesis by (simp add: pollWeather_def Let_def)
next
  case (Inr d)
  from weather_publishMessage_unavailable [OF assms(1)]
  obtain e where "weather_publishMessage (weather_channel s) (publish_throws env) (now_ms env)
      (createWeatherCurrentMessage (uuid env) (now_iso env) d) ROUTING_KEYS_WEATHER_CURRENT = Inl e"
    and "e \<noteq> RateLimitError"
    by blast
  with Inr assms(2) show ?thesis by (simp add: pollWeather_def Let_def)
qed

text \<open>
  An activation publishes at most one envelope, the one it has built from its own
  fetch: no envelope of an earlier activation is ever sent.
\<close>

lemma carbon_publishMessage_published:
  "carbon_publishMessage ch thrown ms message rk = Inr effs \<Longrightarrow> published effs = [message]"
  by (auto simp: carbon_publishMessage_def split: option.splits)

lemma weather_publishMessage_published:
  "weather_publishMessage ch thrown ms message rk = Inr effs \<Longrightarrow> published effs = [message]"
  by (auto simp: weather_publishMessage_def split: option.splits)

lemma published_append: "published (xs @ ys) = published xs @ published ys"
  by (induction xs rule: published.induct) simp_all

lemma pollIntensity_published:
  "published (snd (pollIntensity cfg env s)) =
     (case fetchIntensity (http env) of
        Inl e \<Rightarrow> []
      | Inr d \<Rightarrow>
          if isShuttingDown s \<or> channel s = None \<or> publish_throws env \<noteq> None then []
          else [createCarbonIntensityMessage (uuid env) (now_iso env) d])"
  by (auto simp: pollIntensity_def Let_def carbon_publishMessage_def published_append
      split: sum.splits option.splits)

lemma pollGeneration_published:
  "published (snd (pollGeneration cfg env s)) =
     (case fetchGeneration (fetched_iso env) (http env) of
        Inl e \<Rightarrow> []
      | Inr d \<Rightarrow>
          if isShuttingDown s \<or> channel s = None \<or> publish_throws env \<noteq> None then []
          else [createCarbonGenerationMessage (uuid env) (now_iso env) d])"
  by (auto simp: pollGeneration_def Let_def carbon_publishMessage_def published_append
      split: sum.splits option.splits)

lemma pollWeather_published:
  "published (snd (pollWeather cfg fmt env s)) =
     (case fetchWeather fmt (http env) of
        Inl e \<Rightarrow> []
      | Inr d \<Rightarrow>
          if weather_isShuttingDown s \<or> weather_channel s = None \<or> publish_throws env \<noteq> None then []
          else [createWeatherCurrentMessage (uuid env) (now_iso env) d])"
  by (auto simp: pollWeather_def Let_def weather_publishMessage_def published_append
      split: sum.splits option.splits)

lemma fetch_example_weather:
  "fetchWeather example_toISOString (http (example_weather_env u)) \<noteq> Inl RateLimitError"
  by (simp add: fetchWeather_def response_ok_def example_weather_env_def example_weather_body_def)

text \<open>
  Claim C2, as the code has it. No polling function keeps a buffer. The channel is
  unavailable at the publish when the module's channel variable is unset or when
  \<open>channel.publish\<close> throws, as it does on a channel that has closed. Then
  \<open>publishMessage\<close> throws, and the \<open>catch\<close> block of the activation takes that like
  a failed fetch: nothing is published, the state keeps nothing of the envelope (it
  changes in the failure counter only), and the function is called again after the
  backoff delay, with a new fetch. The carbon pollers end so whatever the fetch
  returned; the weather poller whenever neither the fetch nor the publish ended in the
  rate-limit error. No error leaves the activation: it returns its state and effects.
  What any activation publishes is decided by its own fetch: the one envelope it has
  built, or nothing.
\<close>

theorem C2_unavailable_channel_counts_as_failure:
  "((channel s = None \<or> publish_throws ienv \<noteq> None) \<and> \<not> isShuttingDown s \<longrightarrow>
      pollIntensity cfg ienv s =
        (s\<lparr>intensityFailures := intensityFailures s + 1\<rparr>,
         [Sleep (carbon_calculateBackoff cfg (intensityFailures s + 1)), Call PollIntensity]))
   \<and> ((channel s = None \<or> publish_throws genv \<noteq> None) \<and> \<not> isShuttingDown s \<longrightarrow>
      pollGeneration cfg genv s =
        (s\<lparr>generationFailures := generationFailures s + 1\<rparr>,
         [Sleep (carbon_calculateBackoff cfg (generationFailures s + 1)), Call PollGeneration]))
   \<and> ((weather_channel ws = None \<or> publish_throws wenv \<notin> {None, Some RateLimitError})
        \<and> \<not> weather_isShuttingDown ws
        \<and> fetchWeather fmt (http wenv) \<noteq> Inl RateLimitError \<longrightarrow>
      pollWeather wcfg fmt wenv ws =
        (ws\<lparr>failures := failures ws + 1\<rparr>,
         [Sleep (weather_calculateBackoff wcfg (failures ws + 1)), Call PollWeather]))
   \<and> published (snd (pollIntensity cfg ienv s)) =
       (case fetchIntensity (http ienv) of
          Inl e \<Rightarrow> []
        | Inr d \<Rightarrow>
            if isShuttingDown s \<or> channel s = None \<or> publish_throws ienv \<noteq> None then []
            else [createCarbonIntensityMessage (uuid ienv) (now_iso ienv) d])
   \<and> published (snd (pollGeneration cfg genv s)) =
       (case fetchGeneration (fetched_iso genv) (http genv) of
          Inl e \<Rightarrow> []
        | Inr d \<Rightarrow>
            if isShuttingDown s \<or> channel s = None \<or> publish_throws genv \<noteq> None then []
            else [createCarbonGenerationMessage (uuid genv) (now_iso genv) d])
   \<and> published (snd (pollWeather wcfg fmt wenv ws)) =
       (case fetchWeather fmt (http wenv) of
          Inl e \<Rightarrow> []
        | Inr d \<Rightarrow>
            if weather_isShuttingDown ws \<or> weather_channel ws = None \<or> publish_throws wenv \<noteq> None then []
            else [createWeatherCurrentMessage (uuid wenv) (now_iso wenv) d])"
proof (intro conjI)
  show "(channel s = None \<or> publish_throws ienv \<noteq> None) \<and> \<not> isShuttingDown s \<longrightarrow>
      pollIntensity cfg ienv s =
        (s\<lparr>intensityFailures := intensityFailures s + 1\<rparr>,
         [Sleep (carbon_calculateBackoff cfg (intensityFailures s + 1)), Call PollIntensity])"
    using pollIntensity_unavailable [of s ienv cfg] by blast
  show "(channel s = None \<or> publish_throws genv \<noteq> None) \<and> \<not> isShuttingDown s \<longrightarrow>
      pollGeneration cfg genv s =
        (s\<lparr>generationFailures := generationFailures s + 1\<rparr>,
         [Sleep (carbon_calculateBackoff cfg (generationFailures s + 1)), Call PollGeneration])"
    using pollGeneration_unavailable [of s genv cfg] by blast
  show "(weather_channel ws = None \<or> publish_throws wenv \<notin> {None, Some RateLimitError})
        \<and> \<not> weather_isShuttingDown ws
        \<and> fetchWeather fmt (http wenv) \<noteq> Inl RateLimitError \<longrightarrow>
      pollWeather wcfg fmt wenv ws =
        (ws\<lparr>failures := failures ws + 1\<rparr>,
         [Sleep (weather_calculateBackoff wcfg (failures ws + 1)), Call PollWeather])"
    using pollWeather_unavailable [of ws wenv fmt wcfg] by blast
qed (rule pollIntensity_published pollGeneration_published pollWeather_published)+

theorem C2_unavailable_channel_counts_as_failure_witness:
  "channel carbon_ready = Some 1 \<and> \<not> isShuttingDown carbon_ready
   \<and> publish_throws (channel_closed (example_intensity_env ''id-1'')) = Some (Error ''Channel closed'')
   \<and> publish_throws (channel_closed (example_generation_env ''id-2'')) = Some (Error ''Channel closed'')
   \<and> publish_throws (channel_closed (example_weather_env ''id-3'')) = Some (Error ''Channel closed'')
   \<and> weather_channel weather_ready = Some 1 \<and> \<not> weather_isShuttingDown weather_ready
   \<and> fetchWeather example_toISOString (http (channel_closed (example_weather_env ''id-3''))) \<noteq> Inl RateLimitError
   \<and> pollIntensity (CARBON_CONFIG 120000 300000) (channel_closed (example_intensity_env ''id-1'')) carbon_ready =
       (carbon_ready\<lparr>intensityFailures := 1\<rparr>, [Sleep 10000, Call PollIntensity])
   \<and> pollGeneration (CARBON_CONFIG 120000 300000) (channel_closed (example_generation_env ''id-2'')) carbon_ready =
       (carbon_ready\<lparr>generationFailures := 1\<rparr>, [Sleep 10000, Call PollGeneration])
   \<and> pollWeather (WEATHER_CONFIG 600000) example_toISOString (channel_closed (example_weather_env ''id-3''))
         weather_ready =
       (weather_ready\<lparr>failures := 1\<rparr>, [Sleep 20000, Call PollWeather])
   \<and> published (snd (pollIntensity (CARBON_CONFIG 120000 300000) (example_intensity_env ''id-1'') carbon_ready)) =
       [example_intensity_message ''id-1'']"
proof -
  have c: "channel carbon_ready = Some 1 \<and> \<not> isShuttingDown carbon_ready
     \<and> publish_throws (channel_closed (example_intensity_env ''id-1'')) = Some (Error ''Channel closed'')
     \<and> publish_throws (channel_closed (example_generation_env ''id-2'')) = Some (Error ''Channel closed'')
     \<and> publish_throws (channel_closed (example_weather_env ''id-3'')) = Some (Error ''Channel closed'')"
    by (simp add: carbon_ready_def channel_closed_def)
  have w: "weather_channel weather_ready = Some 1 \<and> \<not> weather_isShuttingDown weather_ready
     \<and> publish_throws (channel_closed (example_weather_env ''id-3'')) \<notin> {None, Some RateLimitError}
     \<and> fetchWeather example_toISOString (http (channel_closed (example_weather_env ''id-3''))) \<noteq> Inl RateLimitError"
    by (simp add: weather_ready_def channel_closed_def fetch_example_weather)
  note closed = C2_unavailable_channel_counts_as_failure
    [of carbon_ready "channel_closed (example_intensity_env ''id-1'')" "CARBON_CONFIG 120000 300000"
        "channel_closed (example_generation_env ''id-2'')" weather_ready
        "channel_closed (example_weather_env ''id-3'')" example_toISOString "WEATHER_CONFIG 600000"]
  note ready = C2_unavailable_channel_counts_as_failure
    [of carbon_ready "example_intensity_env ''id-1''" "CARBON_CONFIG 120000 300000"
        "example_generation_env ''id-2''" weather_ready "example_weather_env ''id-3''"
        example_toISOString "WEATHER_CONFIG 600000"]
  from closed c have i: "pollIntensity (CARBON_CONFIG 120000 300000)
        (channel_closed (example_intensity_env ''id-1'')) carbon_ready =
       (carbon_ready\<lparr>intensityFailures := 1\<rparr>, [Sleep 10000, Call PollIntensity])"
    by (simp add: carbon_ready_def carbon_calculateBackoff_def CARBON_CONFIG_def)
  from closed c have g: "pollGeneration (CARBON_CONFIG 120000 300000)
        (channel_closed (example_generation_env ''id-2'')) carbon_ready =
       (carbon_ready\<lparr>generationFailures := 1\<rparr>, [Sleep 10000, Call PollGeneration])"
    by (simp add: carbon_ready_def carbon_calculateBackoff_def CARBON_CONFIG_def)
  from closed w have p: "pollWeather (WEATHER_CONFIG 600000) example_toISOString
        (channel_closed (example_weather_env ''id-3'')) weather_ready =
       (weather_ready\<lparr>failures := 1\<rparr>, [Sleep 20000, Call PollWeather])"
    by (simp add: weather_ready_def weather_calculateBackoff_def WEATHER_CONFIG_def)
  from ready have o: "published (snd (pollIntensity (CARBON_CONFIG 120000 300000)
        (example_intensity_env ''id-1'') carbon_ready)) = [example_intensity_message ''id-1'']"
    by (simp add: fetchIntensity_def response_ok_def example_intensity_env_def example_intensity_body_def
        carbon_ready_def createCarbonIntensityMessage_def createEnvelope_def
        example_intensity_message_def example_intensity_data_def
        CARBON_INGESTER_def MESSAGE_TYPES_CARBON_INTENSITY_def)
  from c w i g p o show ?thesis by simp
qed

text \<open>
  Claim C2 as the specification states it fails. The channel that \<open>main\<close> stored has
  closed. The fetch for envelope \<open>id-A\<close> succeeds and \<open>channel.publish\<close> throws: the
  activation ends like a failed one, and the module's state after it is the state
  before it with the failure counter at one. The envelope is kept nowhere: it was
  dropped, not buffered. The next activation fetches again, builds \<open>id-B\<close> and loses
  it in the same way; the two activations have published nothing.
\<close>

theorem C2_buffering_counterexample:
  "channel carbon_ready = Some 1
   \<and> fetchIntensity (http (channel_closed (example_intensity_env ''id-A''))) = Inr example_intensity_data
   \<and> publish_throws (channel_closed (example_intensity_env ''id-A'')) = Some (Error ''Channel closed'')
   \<and> pollIntensity (CARBON_CONFIG 120000 300000) (channel_closed (example_intensity_env ''id-A'')) carbon_ready =
       (carbon_ready\<lparr>intensityFailures := 1\<rparr>, [Sleep 10000, Call PollIntensity])
   \<and> intensityCycle (CARBON_CONFIG 120000 300000)
       [channel_closed (example_intensity_env ''id-A''), channel_closed (example_intensity_env ''id-B'')]
       carbon_ready =
       (carbon_ready\<lparr>intensityFailures := 2\<rparr>,
        [Sleep 10000, Call PollIntensity, Sleep 20000, Call PollIntensity])"
  by (simp add: pollIntensity_def fetchIntensity_def carbon_publishMessage_def response_ok_def
      createCarbonIntensityMessage_def createEnvelope_def carbon_calculateBackoff_def
      example_intensity_env_def example_intensity_body_def carbon_ready_def CARBON_CONFIG_def
      channel_closed_def example_intensity_data_def)

section \<open>Ingesters: backoff\<close>

text \<open>
  A run of consecutive failed fetches sleeps \<open>min (baseRetryDelay * 2 ^ k) maxRetryDelay\<close>
  for \<open>k\<close> the failure counter after its increment: non-decreasing delays, none above
  the cap.
\<close>

lemma carbon_calculateBackoff_mono:
  "a \<le> b \<Longrightarrow> carbon_calculateBackoff cfg a \<le> carbon_calculateBackoff cfg b"
  unfolding carbon_calculateBackoff_def
  by (intro min.mono mult_le_mono2 power_increasing) simp_all

lemma carbon_calculateBackoff_cap: "carbon_calculateBackoff cfg k \<le> maxRetryDelay cfg"
  by (simp add: carbon_calculateBackoff_def)

lemma pollIntensity_failure:
  "\<not> isShuttingDown s \<Longrightarrow> fetchIntensity (http env) = Inl e \<Longrightarrow>
   pollIntensity cfg env s =
     (s\<lparr>intensityFailures := intensityFailures s + 1\<rparr>,
      [Sleep (carbon_calculateBackoff cfg (intensityFailures s + 1)), Call PollIntensity])"
  by (simp add: pollIntensity_def Let_def)

lemma intensityCycle_failures:
  "\<not> isShuttingDown s \<Longrightarrow> \<forall>env \<in> set envs. \<exists>e. fetchIntensity (http env) = Inl e \<Longrightarrow>
   sleeps (snd (intensityCycle cfg envs s)) =
     map (carbon_calculateBackoff cfg) [intensityFailures s + 1 ..< intensityFailures s + 1 + length envs]"
proof (induction envs arbitrary: s)
  case Nil
  then show ?case by simp
next
  case (Cons env envs)
  from Cons.prems obtain e where e: "fetchIntensity (http env) = Inl e" by auto
  let ?s1 = "s\<lparr>intensityFailures := intensityFailures s + 1\<rparr>"
  have step: "pollIntensity cfg env s =
     (?s1, [Sleep (carbon_calculateBackoff cfg (intensityFailures s + 1)), Call PollIntensity])"
    using Cons.prems(1) e by (rule pollIntensity_failure)
  have ih: "sleeps (snd (intensityCycle cfg envs ?s1)) =
     map (carbon_calculateBackoff cfg) [intensityFailures ?s1 + 1 ..< intensityFailures ?s1 + 1 + length envs]"
    using Cons.prems by (intro Cons.IH) simp_all
  have "snd (intensityCycle cfg (env # envs) s) =
      [Sleep (carbon_calculateBackoff cfg (intensityFailures s + 1)), Call PollIntensity]
        @ snd (intensityCycle cfg envs ?s1)"
    by (simp add: step split: prod.splits)
  then have "sleeps (snd (intensityCycle cfg (env # envs) s)) =
      carbon_calculateBackoff cfg (intensityFailures s + 1) # sleeps (snd (intensityCycle cfg envs ?s1))"
    by simp
  also have "\<dots> = carbon_calculateBackoff cfg (intensityFailures s + 1) #
      map (carbon_calculateBackoff cfg) [intensityFailures s + 2 ..< intensityFailures s + 2 + length envs]"
    using ih by (simp del: upt_Suc)
  also have "\<dots> = map (carbon_calculateBackoff cfg)
      [intensityFailures s + 1 ..< intensityFailures s + 1 + length (env # envs)]"
    by (simp del: upt_Suc add: upt_conv_Cons)
  finally show ?case .
qed

lemma intensity_delays_sorted:
  "sorted (map (carbon_calculateBackoff cfg) [a ..< b])"
  by (simp add: sorted_map sorted_wrt_iff_nth_less carbon_calculateBackoff_mono)

text \<open>
  Claim C6, at the input where the code leaves it. After a success has reset the counter,
  the next failure increments it to one before the delay is computed, so the delay is
  twice the base delay (10000 ms for the carbon pollers, 20000 ms for the weather
  poller), not the base delay.
\<close>

theorem C6_delay_after_success:
  "sleeps (snd (intensityCycle (CARBON_CONFIG 120000 300000)
       [failing_intensity_env, failing_intensity_env, example_intensity_env ''id-1'', failing_intensity_env]
       carbon_ready)) = [10000, 20000, 10000]
   \<and> baseRetryDelay (CARBON_CONFIG 120000 300000) = 5000
   \<and> sleeps (snd (weatherCycle (WEATHER_CONFIG 600000) example_toISOString
       [failing_weather_env, failing_weather_env, example_weather_env ''id-3'', failing_weather_env]
       weather_ready)) = [20000, 40000, 20000]
   \<and> weather_baseRetryDelay (WEATHER_CONFIG 600000) = 10000"
  by (simp add: pollIntensity_def fetchIntensity_def carbon_publishMessage_def response_ok_def
      createCarbonIntensityMessage_def createEnvelope_def carbon_calculateBackoff_def
      pollWeather_def fetchWeather_def weather_publishMessage_def weather_calculateBackoff_def
      createWeatherCurrentMessage_def
      example_intensity_env_def example_intensity_body_def carbon_ready_def CARBON_CONFIG_def failing_intensity_env_def
      example_weather_env_def example_weather_body_def example_toISOString_def weather_ready_def WEATHER_CONFIG_def failing_weather_env_def)

section \<open>Connection manager: the retry loop\<close>

declare connect_loop.simps [simp del]

lemma cm_calculateBackoff_eq:
  "0 < retryCount m \<Longrightarrow>
   cm_calculateBackoff m = min (initialRetryDelay m * 2 ^ (retryCount m - 1)) (cm_maxRetryDelay m)"
  by (simp add: cm_calculateBackoff_def power_int_def nat_diff_distrib)

lemma retry_effects_Cons:
  "a < b \<Longrightarrow> retry_effects m a b =
     AmqpConnect (url m) # CmSleep (min (initialRetryDelay m * 2 ^ (a - 1)) (cm_maxRetryDelay m)) #
       retry_effects m (Suc a) b"
  by (simp add: retry_effects_def upt_conv_Cons del: upt_Suc)

lemma retry_effects_Nil [simp]: "retry_effects m a a = []"
  by (simp add: retry_effects_def)

lemma retry_effects_frame [simp]:
  "retry_effects (m\<lparr>retryCount := r\<rparr>) a b = retry_effects m a b"
  "retry_effects (m\<lparr>isConnecting := c, isClosed := d\<rparr>) a b = retry_effects m a b"
  by (simp_all add: retry_effects_def)

lemma connect_loop_all_fail:
  assumes "retryCount m + d = maxRetries m" and "\<not> isClosed m"
    and "\<And>j. j \<le> d \<Longrightarrow> amqp (i + j) = Inl (msgs (i + j))"
  shows "connect_loop amqp i m =
           (Rejected (FailedToConnect (maxRetries m) (msgs (i + d))),
            m\<lparr>retryCount := maxRetries m + 1, isConnecting := False, errorListeners := []\<rparr>,
            retry_effects m (retryCount m + 1) (maxRetries m + 1) @
              AmqpConnect (url m) #
              map (\<lambda>w. NotifyError w (FailedToConnect (maxRetries m) (msgs (i + d))))
                (errorListeners m))"
  using assms
proof (induction d arbitrary: i m)
  case 0
  have a0: "amqp i = Inl (msgs i)" using "0.prems"(3) [of 0] by simp
  show ?case
    using "0.prems"(1,2) a0 by (subst connect_loop.simps) simp
next
  case (Suc d)
  let ?m1 = "m\<lparr>retryCount := retryCount m + 1\<rparr>"
  have a0: "amqp i = Inl (msgs i)" using Suc.prems(3) [of 0] by simp
  have cond: "retryCount m \<le> maxRetries m \<and> \<not> isClosed m" using Suc.prems by simp
  have more: "\<not> retryCount m + 1 > maxRetries m" using Suc.prems(1) by simp
  have p1: "retryCount ?m1 + d = maxRetries ?m1" using Suc.prems(1) by simp
  have p2: "\<not> isClosed ?m1" using Suc.prems(2) by simp
  have p3: "\<And>j. j \<le> d \<Longrightarrow> amqp (i + 1 + j) = Inl (msgs (i + 1 + j))"
    using Suc.prems(3) [of "Suc j" for j] by simp
  note ih = Suc.IH [OF p1 p2 p3]
  have bo: "cm_calculateBackoff ?m1 =
      min (initialRetryDelay m * 2 ^ (retryCount m + 1 - 1)) (cm_maxRetryDelay m)"
    by (simp add: cm_calculateBackoff_eq)
  have hd: "retry_effects m (retryCount m + 1) (maxRetries m + 1) =
      AmqpConnect (url m) #
        CmSleep (min (initialRetryDelay m * 2 ^ (retryCount m + 1 - 1)) (cm_maxRetryDelay m)) #
        retry_effects m (retryCount m + 2) (maxRetries m + 1)"
    using more by (simp add: retry_effects_Cons)
  have "connect_loop amqp i m =
      (case connect_loop amqp (i + 1) ?m1 of
         (r, m', effs) \<Rightarrow>
           (r, m', AmqpConnect (url m) # CmSleep (cm_calculateBackoff ?m1) # effs))"
    using cond a0 more by (subst connect_loop.simps) simp
  also have "\<dots> =
         (Rejected (FailedToConnect (maxRetries m) (msgs (i + Suc d))),
          m\<lparr>retryCount := maxRetries m + 1, isConnecting := False, errorListeners := []\<rparr>,
          retry_effects m (retryCount m + 1) (maxRetries m + 1) @
            AmqpConnect (url m) #
            map (\<lambda>w. NotifyError w (FailedToConnect (maxRetries m) (msgs (i + Suc d))))
              (errorListeners m))"
    using ih bo hd by simp
  finally show ?case .
qed

lemma connect_loop_success_after:
  assumes "retryCount m + n \<le> maxRetries m" and "\<not> isClosed m"
    and "\<And>j. j < n \<Longrightarrow> amqp (i + j) = Inl (msgs (i + j))"
    and "amqp (i + n) = Inr c"
  shows "connect_loop amqp i m =
           (Resolved c,
            m\<lparr>connection := Some c, retryCount := 0, isConnecting := False, connectionListeners := []\<rparr>,
            retry_effects m (retryCount m + 1) (retryCount m + n + 1) @
              AmqpConnect (url m) # map (\<lambda>w. NotifyConnection w c) (connectionListeners m))"
  using assms
proof (induction n arbitrary: i m)
  case 0
  then show ?case
    by (subst connect_loop.simps) simp
next
  case (Suc n)
  let ?m1 = "m\<lparr>retryCount := retryCount m + 1\<rparr>"
  have a0: "amqp i = Inl (msgs i)" using Suc.prems(3) [of 0] by simp
  have cond: "retryCount m \<le> maxRetries m \<and> \<not> isClosed m" using Suc.prems by simp
  have more: "\<not> retryCount m + 1 > maxRetries m" using Suc.prems(1) by simp
  have p1: "retryCount ?m1 + n \<le> maxRetries ?m1" using Suc.prems(1) by simp
  have p2: "\<not> isClosed ?m1" using Suc.prems(2) by simp
  have p3: "\<And>j. j < n \<Longrightarrow> amqp (i + 1 + j) = Inl (msgs (i + 1 + j))"
    using Suc.prems(3) [of "Suc j" for j] by simp
  have p4: "amqp (i + 1 + n) = Inr c" using Suc.prems(4) by simp
  note ih = Suc.IH [OF p1 p2 p3 p4]
  have bo: "cm_calculateBackoff ?m1 =
      min (initialRetryDelay m * 2 ^ (retryCount m + 1 - 1)) (cm_maxRetryDelay m)"
    by (simp add: cm_calculateBackoff_eq)
  have hd: "retry_effects m (retryCount m + 1) (retryCount m + Suc n + 1) =
      AmqpConnect (url m) #
        CmSleep (min (initialRetryDelay m * 2 ^ (retryCount m + 1 - 1)) (cm_maxRetryDelay m)) #
        retry_effects m (retryCount m + 2) (retryCount m + Suc n + 1)"
    by (simp add: retry_effects_Cons)
  have "connect_loop amqp i m =
      (case connect_loop amqp (i + 1) ?m1 of
         (r, m', effs) \<Rightarrow>
           (r, m', AmqpConnect (url m) # CmSleep (cm_calculateBackoff ?m1) # effs))"
    using cond a0 more by (subst connect_loop.simps) simp
  also have "\<dots> =
         (Resolved c,
          m\<lparr>connection := Some c, retryCount := 0, isConnecting := False, connectionListeners := []\<rparr>,
          retry_effects m (retryCount m + 1) (retryCount m + Suc n + 1) @
            AmqpConnect (url m) # map (\<lambda>w. NotifyConnection w c) (connectionListeners m))"
    using ih bo hd by simp
  finally show ?case .
qed

lemma connect_disconnected:
  "connection m = None \<Longrightarrow> \<not> isConnecting m \<Longrightarrow>
   connect amqp w m = connect_loop amqp 0 (m\<lparr>isConnecting := True, isClosed := False\<rparr>)"
  by (simp add: connect_def)

text \<open>
  Claim C7. \<open>connect\<close> on a disconnected manager (no connection, no attempt in flight,
  the retry counter at zero as after construction or after a success) runs a bounded
  loop. When every attempt fails, its effects are, for \<open>k\<close> from one to
  \<open>maxRetries\<close>, an attempt and then a sleep of
  \<open>min (initialRetryDelay * 2 ^ (k - 1)) maxRetryDelay\<close>, the delay before the
  \<open>k\<close>-th retry; then the last attempt and the calls of the error listeners. It
  rejects with the final error, which carries the last attempt's message, and a later
  \<open>connect\<close> on the manager it leaves is rejected without any attempt. When the
  attempt after \<open>n\<close> failures succeeds, the effects are the first \<open>n\<close> of these
  rounds, the attempt that succeeds and the calls of the connection listeners, and
  \<open>connect\<close> resolves with the connection.
\<close>

theorem C7_connect_bounded_retry_with_backoff:
  "(connection m = None \<and> \<not> isConnecting m \<and> retryCount m = 0
      \<and> (\<forall>j \<le> maxRetries m. amqp j = Inl (msgs j)) \<longrightarrow>
        fst (connect amqp w m) = Rejected (FailedToConnect (maxRetries m) (msgs (maxRetries m)))
      \<and> snd (snd (connect amqp w m)) =
          retry_effects m 1 (maxRetries m + 1) @
            AmqpConnect (url m) #
            map (\<lambda>w. NotifyError w (FailedToConnect (maxRetries m) (msgs (maxRetries m))))
              (errorListeners m)
      \<and> connection (fst (snd (connect amqp w m))) = None
      \<and> fst (connect amqp' w' (fst (snd (connect amqp w m)))) = Rejected (Error ''Connection aborted'')
      \<and> snd (snd (connect amqp' w' (fst (snd (connect amqp w m))))) = [])
   \<and> (connection m = None \<and> \<not> isConnecting m \<and> retryCount m = 0
      \<and> n \<le> maxRetries m \<and> (\<forall>j < n. amqp j = Inl (msgs j)) \<and> amqp n = Inr c \<longrightarrow>
        fst (connect amqp w m) = Resolved c
      \<and> snd (snd (connect amqp w m)) =
          retry_effects m 1 (n + 1) @
            AmqpConnect (url m) # map (\<lambda>w. NotifyConnection w c) (connectionListeners m)
      \<and> connection (fst (snd (connect amqp w m))) = Some c
      \<and> retryCount (fst (snd (connect amqp w m))) = 0)"
proof (rule conjI; rule impI)
  assume h: "connection m = None \<and> \<not> isConnecting m \<and> retryCount m = 0
      \<and> (\<forall>j \<le> maxRetries m. amqp j = Inl (msgs j))"
  let ?m0 = "m\<lparr>isConnecting := True, isClosed := False\<rparr>"
  have eq: "connect amqp w m = connect_loop amqp 0 ?m0"
    using h by (simp add: connect_disconnected)
  have run: "connect_loop amqp 0 ?m0 =
           (Rejected (FailedToConnect (maxRetries ?m0) (msgs (0 + maxRetries m))),
            ?m0\<lparr>retryCount := maxRetries ?m0 + 1, isConnecting := False, errorListeners := []\<rparr>,
            retry_effects ?m0 (retryCount ?m0 + 1) (maxRetries ?m0 + 1) @
              AmqpConnect (url ?m0) #
              map (\<lambda>w. NotifyError w (FailedToConnect (maxRetries ?m0) (msgs (0 + maxRetries m))))
                (errorListeners ?m0))"
    using h by (intro connect_loop_all_fail) simp_all
  show "fst (connect amqp w m) = Rejected (FailedToConnect (maxRetries m) (msgs (maxRetries m)))
      \<and> snd (snd (connect amqp w m)) =
          retry_effects m 1 (maxRetries m + 1) @
            AmqpConnect (url m) #
            map (\<lambda>w. NotifyError w (FailedToConnect (maxRetries m) (msgs (maxRetries m))))
              (errorListeners m)
      \<and> connection (fst (snd (connect amqp w m))) = None
      \<and> fst (connect amqp' w' (fst (snd (connect amqp w m)))) = Rejected (Error ''Connection aborted'')
      \<and> snd (snd (connect amqp' w' (fst (snd (connect amqp w m))))) = []"
    using h unfolding eq run by (simp add: connect_def connect_loop.simps [of amqp'])
next
  assume h: "connection m = None \<and> \<not> isConnecting m \<and> retryCount m = 0
      \<and> n \<le> maxRetries m \<and> (\<forall>j < n. amqp j = Inl (msgs j)) \<and> amqp n = Inr c"
  let ?m0 = "m\<lparr>isConnecting := True, isClosed := False\<rparr>"
  have eq: "connect amqp w m = connect_loop amqp 0 ?m0"
    using h by (simp add: connect_disconnected)
  have run: "connect_loop amqp 0 ?m0 =
           (Resolved c,
            ?m0\<lparr>connection := Some c, retryCount := 0, isConnecting := False, connectionListeners := []\<rparr>,
            retry_effects ?m0 (retryCount ?m0 + 1) (retryCount ?m0 + n + 1) @
              AmqpConnect (url ?m0) # map (\<lambda>w. NotifyConnection w c) (connectionListeners ?m0))"
    using h by (intro connect_loop_success_after [where msgs = msgs]) simp_all
  show "fst (connect amqp w m) = Resolved c
      \<and> snd (snd (connect amqp w m)) =
          retry_effects m 1 (n + 1) @
            AmqpConnect (url m) # map (\<lambda>w. NotifyConnection w c) (connectionListeners m)
      \<and> connection (fst (snd (connect amqp w m))) = Some c
      \<and> retryCount (fst (snd (connect amqp w m))) = 0"
    using h unfolding eq run by simp
qed

lemma default_manager_fields:
  "connection default_manager = None" "\<not> isConnecting default_manager" "retryCount default_manager = 0"
  "maxRetries default_manager = 10" "initialRetryDelay default_manager = 1000"
  "cm_maxRetryDelay default_manager = 30000" "\<not> isClosed default_manager"
  "url default_manager = ''amqp://localhost''" "connectionListeners default_manager = []"
  "errorListeners default_manager = []"
  by (simp_all add: default_manager_def new_ConnectionManager_def)

theorem C7_connect_bounded_retry_with_backoff_witness:
  "connection default_manager = None \<and> \<not> isConnecting default_manager \<and> retryCount default_manager = 0
   \<and> fst (connect broker_down 0 default_manager) = Rejected (FailedToConnect 10 ''ECONNREFUSED'')
   \<and> cm_attempts (snd (snd (connect broker_down 0 default_manager))) = 11
   \<and> cm_sleeps (snd (snd (connect broker_down 0 default_manager))) =
        [1000, 2000, 4000, 8000, 16000, 30000, 30000, 30000, 30000, 30000]
   \<and> connection (fst (snd (connect broker_down 0 default_manager))) = None
   \<and> fst (connect (broker_up_after 0) 1 (fst (snd (connect broker_down 0 default_manager)))) =
        Rejected (Error ''Connection aborted'')
   \<and> fst (connect (broker_up_after 3) 0 default_manager) = Resolved 7
   \<and> snd (snd (connect (broker_up_after 3) 0 default_manager)) =
        [AmqpConnect ''amqp://localhost'', CmSleep 1000,
         AmqpConnect ''amqp://localhost'', CmSleep 2000,
         AmqpConnect ''amqp://localhost'', CmSleep 4000,
         AmqpConnect ''amqp://localhost'']
   \<and> connection (fst (snd (connect (broker_up_after 3) 0 default_manager))) = Some 7"
proof -
  have down: "\<forall>j \<le> maxRetries default_manager. broker_down j = Inl ((\<lambda>j. ''ECONNREFUSED'') j)"
    by (simp add: broker_down_def)
  have up: "3 \<le> maxRetries default_manager
      \<and> (\<forall>j < 3. broker_up_after 3 j = Inl ((\<lambda>j. ''ECONNREFUSED'') j)) \<and> broker_up_after 3 3 = Inr 7"
    by (simp add: broker_up_after_def default_manager_fields)
  have r10: "retry_effects default_manager 1 (maxRetries default_manager + 1) =
      [AmqpConnect ''amqp://localhost'', CmSleep 1000, AmqpConnect ''amqp://localhost'', CmSleep 2000,
       AmqpConnect ''amqp://localhost'', CmSleep 4000, AmqpConnect ''amqp://localhost'', CmSleep 8000,
       AmqpConnect ''amqp://localhost'', CmSleep 16000, AmqpConnect ''amqp://localhost'', CmSleep 30000,
       AmqpConnect ''amqp://localhost'', CmSleep 30000, AmqpConnect ''amqp://localhost'', CmSleep 30000,
       AmqpConnect ''amqp://localhost'', CmSleep 30000, AmqpConnect ''amqp://localhost'', CmSleep 30000]"
    by (simp add: retry_effects_def default_manager_fields upt_rec)
  have r3: "retry_effects default_manager 1 (3 + 1) =
      [AmqpConnect ''amqp://localhost'', CmSleep 1000, AmqpConnect ''amqp://localhost'', CmSleep 2000,
       AmqpConnect ''amqp://localhost'', CmSleep 4000]"
    by (simp add: retry_effects_def default_manager_fields upt_rec)
  from C7_connect_bounded_retry_with_backoff
    [where m = default_manager and amqp = broker_down and msgs = "\<lambda>j. ''ECONNREFUSED''" and w = 0
       and amqp' = "broker_up_after 0" and w' = 1,
      THEN conjunct1] down default_manager_fields
  have a: "fst (connect broker_down 0 default_manager) = Rejected (FailedToConnect 10 ''ECONNREFUSED'')
   \<and> cm_attempts (snd (snd (connect broker_down 0 default_manager))) = 11
   \<and> cm_sleeps (snd (snd (connect broker_down 0 default_manager))) =
        [1000, 2000, 4000, 8000, 16000, 30000, 30000, 30000, 30000, 30000]
   \<and> connection (fst (snd (connect broker_down 0 default_manager))) = None
   \<and> fst (connect (broker_up_after 0) 1 (fst (snd (connect broker_down 0 default_manager)))) =
        Rejected (Error ''Connection aborted'')"
    unfolding r10 by simp
  from C7_connect_bounded_retry_with_backoff
    [where m = default_manager and amqp = "broker_up_after 3" and msgs = "\<lambda>j. ''ECONNREFUSED''"
       and w = 0 and n = 3 and c = 7, THEN conjunct2] up default_manager_fields
  have b: "fst (connect (broker_up_after 3) 0 default_manager) = Resolved 7
   \<and> snd (snd (connect (broker_up_after 3) 0 default_manager)) =
        [AmqpConnect ''amqp://localhost'', CmSleep 1000,
         AmqpConnect ''amqp://localhost'', CmSleep 2000,
         AmqpConnect ''amqp://localhost'', CmSleep 4000,
         AmqpConnect ''amqp://localhost'']
   \<and> connection (fst (snd (connect (broker_up_after 3) 0 default_manager))) = Some 7"
    unfolding r3 by simp
  from a b default_manager_fields show ?thesis by simp
qed

section \<open>Connection manager: close\<close>

lemma close_result:
  "close channelClose connectionClose m =
     (Resolved (),
      m\<lparr>isClosed := True, cm_channel := None, connection := None\<rparr>,
      (case cm_channel m of None \<Rightarrow> [] | Some ch \<Rightarrow> [ChannelClose ch (channelClose ch)]) @
      (case connection m of None \<Rightarrow> [] | Some c \<Rightarrow> [ConnectionClose c (connectionClose c)]))"
  by (cases "cm_channel m"; cases "connection m") (simp_all add: close_def Let_def)

lemma connect_first_attempt_succeeds:
  "connection m = None \<Longrightarrow> \<not> isConnecting m \<Longrightarrow> retryCount m \<le> maxRetries m \<Longrightarrow> amqp 0 = Inr c \<Longrightarrow>
   connect amqp w m =
     (Resolved c,
      m\<lparr>isConnecting := False, isClosed := False, connection := Some c, retryCount := 0,
        connectionListeners := []\<rparr>,
      AmqpConnect (url m) # map (\<lambda>w. NotifyConnection w c) (connectionListeners m))"
  by (simp add: connect_def connect_loop.simps [of amqp])

text \<open>
  Claim C8, as the code has it. \<open>close\<close> sets the closed flag, closes the channel and
  then the connection (each if there is one), takes no notice of what either close call
  throws, and leaves both unset. While the flag is set, the handlers of connection and
  channel events start no reconnection and leave the flag set. The flag is not terminal:
  \<open>connect\<close> clears it before its loop, so a later call by the owner connects again.
\<close>

theorem C8_close_then_closed_until_connect:
  "fst (close channelClose connectionClose m) = Resolved ()
   \<and> fst (snd (close channelClose connectionClose m)) =
        m\<lparr>isClosed := True, cm_channel := None, connection := None\<rparr>
   \<and> snd (snd (close channelClose connectionClose m)) =
        (case cm_channel m of None \<Rightarrow> [] | Some ch \<Rightarrow> [ChannelClose ch (channelClose ch)]) @
        (case connection m of None \<Rightarrow> [] | Some c \<Rightarrow> [ConnectionClose c (connectionClose c)])
   \<and> (isClosed m \<longrightarrow>
        connection_on_close amqp w m = (m, [])
      \<and> connection_on_error amqp w m = (m\<lparr>connection := None, cm_channel := None\<rparr>, [])
      \<and> isClosed (channel_on_error m) \<and> isClosed (channel_on_close m))
   \<and> (isClosed m \<and> connection m = None \<and> \<not> isConnecting m \<and> retryCount m \<le> maxRetries m
        \<and> amqp 0 = Inr c \<longrightarrow>
        fst (connect amqp w m) = Resolved c
      \<and> \<not> isClosed (fst (snd (connect amqp w m)))
      \<and> connection (fst (snd (connect amqp w m))) = Some c)"
  by (simp add: close_result connection_on_close_def connection_on_error_def handleDisconnect_def
      channel_on_error_def channel_on_close_def connect_first_attempt_succeeds)

lemma closed_manager_eq:
  "closed_manager = default_manager\<lparr>isClosed := True\<rparr>"
  by (simp add: closed_manager_def close_result connected_manager_def default_manager_def
      new_ConnectionManager_def)

theorem C8_close_then_closed_until_connect_witness:
  "isClosed closed_manager \<and> connection closed_manager = None \<and> \<not> isConnecting closed_manager
   \<and> retryCount closed_manager \<le> maxRetries closed_manager \<and> broker_up_after 0 0 = Inr 7
   \<and> close closes_quietly close_rejects connected_manager =
        (Resolved (), closed_manager,
         [ChannelClose 1 None, ConnectionClose 1 (Some (Error ''Channel closed''))])
   \<and> connection_on_close (broker_up_after 0) 0 closed_manager = (closed_manager, [])
   \<and> connection_on_error (broker_up_after 0) 0 closed_manager = (closed_manager, [])
   \<and> fst (connect (broker_up_after 0) 0 closed_manager) = Resolved 7
   \<and> \<not> isClosed (fst (snd (connect (broker_up_after 0) 0 closed_manager)))"
proof -
  have h: "isClosed closed_manager \<and> connection closed_manager = None \<and> \<not> isConnecting closed_manager
   \<and> retryCount closed_manager \<le> maxRetries closed_manager \<and> broker_up_after 0 0 = Inr 7"
    by (simp add: closed_manager_eq default_manager_fields broker_up_after_def)
  have same: "closed_manager\<lparr>connection := None, cm_channel := None\<rparr> = closed_manager"
    by (simp add: closed_manager_eq default_manager_def new_ConnectionManager_def)
  have c: "close closes_quietly close_rejects connected_manager =
        (Resolved (), closed_manager,
         [ChannelClose 1 None, ConnectionClose 1 (Some (Error ''Channel closed''))])"
    using C8_close_then_closed_until_connect
      [where m = connected_manager and channelClose = closes_quietly and connectionClose = close_rejects]
    by (simp add: prod_eq_iff closed_manager_def connected_manager_def closes_quietly_def close_rejects_def)
  from C8_close_then_closed_until_connect
      [where m = closed_manager and amqp = "broker_up_after 0" and w = 0 and c = 7] h same c
  show ?thesis by simp
qed

text \<open>
  Claim C8 as the specification states it fails: after \<open>close\<close>, a call of
  \<open>connect\<close> takes the manager out of the closed state and establishes a connection.
\<close>

theorem C8_closed_is_terminal_counterexample:
  "isClosed (fst (snd (close closes_quietly closes_quietly connected_manager)))
   \<and> connection (fst (snd (close closes_quietly closes_quietly connected_manager))) = None
   \<and> fst (connect (broker_up_after 0) 0 (fst (snd (close closes_quietly closes_quietly connected_manager))))
       = Resolved 7
   \<and> \<not> isClosed (fst (snd (connect (broker_up_after 0) 0
          (fst (snd (close closes_quietly closes_quietly connected_manager))))))
   \<and> connection (fst (snd (connect (broker_up_after 0) 0
          (fst (snd (close closes_quietly closes_quietly connected_manager)))))) = Some 7
   \<and> isConnected (fst (snd (connect (broker_up_after 0) 0
          (fst (snd (close closes_quietly closes_quietly connected_manager))))))"
  by (simp add: close_result connected_manager_def default_manager_def new_ConnectionManager_def
      connect_def connect_loop.simps [of "broker_up_after 0"] broker_up_after_def isConnected_def)

section \<open>Connection manager: channel events\<close>

text \<open>
  Claim C9. The channel's error and close handlers unset the channel and change no other
  field of the manager, the connection in particular; on a manager that has a
  connection, the next \<open>getChannel\<close> creates a channel on that connection, without a
  connection attempt, and stores it.
\<close>

theorem C9_channel_event_invalidates_only_channel:
  "channel_on_error m = m\<lparr>cm_channel := None\<rparr>
   \<and> channel_on_close m = m\<lparr>cm_channel := None\<rparr>
   \<and> connection (channel_on_error m) = connection m
   \<and> connection (channel_on_close m) = connection m
   \<and> (connection m = Some c \<and> createChannel c = Inr ch \<longrightarrow>
        getChannel amqp createChannel w (channel_on_error m) =
          (Resolved ch, m\<lparr>cm_channel := Some ch\<rparr>, [CreateChannel c])
      \<and> getChannel amqp createChannel w (channel_on_close m) =
          (Resolved ch, m\<lparr>cm_channel := Some ch\<rparr>, [CreateChannel c]))"
  by (simp add: channel_on_error_def channel_on_close_def getChannel_def connect_def)

theorem C9_channel_event_invalidates_only_channel_witness:
  "connection connected_manager = Some 1 \<and> creates_channel 1 = Inr 2
   \<and> cm_channel connected_manager = Some 1
   \<and> cm_channel (channel_on_error connected_manager) = None
   \<and> connection (channel_on_error connected_manager) = Some 1
   \<and> getChannel broker_down creates_channel 0 (channel_on_error connected_manager) =
        (Resolved 2, connected_manager\<lparr>cm_channel := Some 2\<rparr>, [CreateChannel 1])
   \<and> getChannel broker_down creates_channel 0 (channel_on_close connected_manager) =
        (Resolved 2, connected_manager\<lparr>cm_channel := Some 2\<rparr>, [CreateChannel 1])"
proof -
  have h: "connection connected_manager = Some 1 \<and> creates_channel 1 = Inr 2"
    by (simp add: connected_manager_def creates_channel_def)
  note inst = C9_channel_event_invalidates_only_channel
    [where m = connected_manager and c = 1 and createChannel = creates_channel and ch = 2
       and amqp = broker_down and w = 0]
  from inst h have g: "getChannel broker_down creates_channel 0 (channel_on_error connected_manager) =
        (Resolved 2, connected_manager\<lparr>cm_channel := Some 2\<rparr>, [CreateChannel 1])
   \<and> getChannel broker_down creates_channel 0 (channel_on_close connected_manager) =
        (Resolved 2, connected_manager\<lparr>cm_channel := Some 2\<rparr>, [CreateChannel 1])"
    by blast
  from inst have e: "channel_on_error connected_manager = connected_manager\<lparr>cm_channel := None\<rparr>"
    by blast
  have f: "cm_channel connected_manager = Some 1
     \<and> cm_channel (channel_on_error connected_manager) = None
     \<and> connection (channel_on_error connected_manager) = Some 1"
    unfolding e by (simp add: connected_manager_def)
  from h g f show ?thesis by blast
qed

section \<open>Consumers: what the processing prints\<close>

lemma and_then_Inr:
  "and_then r f = Inr y \<longleftrightarrow> (\<exists>v. r = Inr v \<and> f v = Inr y)"
  by (cases r) (simp_all add: and_then_def)

lemma processIntensity_lines:
  assumes "processIntensity d = Inr lines"
  shows "filter is_signal lines = [] \<and> filter is_requeue lines = [] \<and> map (retarget t' m') lines = lines"
  using assms by (auto simp: processIntensity_def and_then_Inr)

lemma processGeneration_lines:
  assumes "processGeneration arraySort d = Inr lines"
  shows "filter is_signal lines = [] \<and> filter is_requeue lines = [] \<and> map (retarget t' m') lines = lines"
  using assms by (auto simp: processGeneration_def and_then_Inr)

lemma aggregator_switch_lines:
  assumes "aggregator_switch arraySort envelope = Inr lines"
  shows "filter is_signal lines = [] \<and> filter is_requeue lines = [] \<and> map (retarget t' m') lines = lines"
proof -
  from assms obtain ty where ty: "js_get (Val envelope) ''type'' = Inr ty"
    and body: "(if ty = Val (JStr MESSAGE_TYPES_CARBON_INTENSITY) then
         and_then (js_get (Val envelope) ''data'') processIntensity
       else if ty = Val (JStr MESSAGE_TYPES_CARBON_GENERATION) then
         and_then (js_get (Val envelope) ''data'') (processGeneration arraySort)
       else Inr [ConsoleLog (AggregatorUnknown ty)]) = Inr lines"
    unfolding aggregator_switch_def and_then_Inr by blast
  show ?thesis
  proof (cases "ty = Val (JStr MESSAGE_TYPES_CARBON_INTENSITY)")
    case True
    with body have "and_then (js_get (Val envelope) ''data'') processIntensity = Inr lines" by simp
    then obtain d where "processIntensity d = Inr lines" unfolding and_then_Inr by blast
    then show ?thesis by (rule processIntensity_lines)
  next
    case False
    show ?thesis
    proof (cases "ty = Val (JStr MESSAGE_TYPES_CARBON_GENERATION)")
      case True
      with False body have "and_then (js_get (Val envelope) ''data'') (processGeneration arraySort) = Inr lines"
        by simp
      then obtain d where "processGeneration arraySort d = Inr lines" unfolding and_then_Inr by blast
      then show ?thesis by (rule processGeneration_lines)
    next
      case g: False
      with False body have "lines = [ConsoleLog (AggregatorUnknown ty)]" by simp
      then show ?thesis by simp
    qed
  qed
qed

section \<open>Consumers: redelivery\<close>

lemma logger_try_redelivery:
  "content m' = content m \<Longrightarrow> routingKey m' = routingKey m \<Longrightarrow>
   logger_try parse arraySort t' ch m' =
     (map (retarget t' m') (fst (logger_try parse arraySort t ch m)),
      snd (logger_try parse arraySort t ch m))"
  by (simp add: logger_try_def split: option.splits sum.splits)

lemma aggregator_try_redelivery:
  "content m' = content m \<Longrightarrow> routingKey m' = routingKey m \<Longrightarrow>
   aggregator_try parse arraySort cid ch m' =
     (map (retarget t' m') (fst (aggregator_try parse arraySort cid ch m)),
      snd (aggregator_try parse arraySort cid ch m))"
  by (simp add: aggregator_try_def aggregator_switch_lines split: option.splits sum.splits)

lemma logger_first_delivery:
  "fst (logger_handleMessage example_parse example_arraySort ''12:00:00'' consumer_ready
          (Some (delivery ''intensity id-1'' ''feed.carbon.intensity'' 41))) =
     [ConsoleLog (LoggerReceived ''12:00:00'' ''feed.carbon.intensity'' (Val (JStr ''id-1''))),
      ConsoleLog (LoggerSummary
        (IntensitySummary (Val (JNum 195)) (Val (JStr ''moderate'')) (Val (JNum 192)))),
      Ack 1 (delivery ''intensity id-1'' ''feed.carbon.intensity'' 41)]"
  by (simp add: logger_handleMessage_def logger_try_def formatMessageSummary_def and_then_def
      MESSAGE_TYPES_CARBON_INTENSITY_def
      consumer_ready_def example_parse_def delivery_def example_intensity_json_def)

lemma aggregator_first_delivery:
  "fst (aggregator_handleMessage example_parse example_arraySort ''Aggregator-ab12'' consumer_ready
          (Some (delivery ''intensity id-1'' ''feed.carbon.intensity'' 41))) =
     [ConsoleLog (AggregatorProcessing ''Aggregator-ab12'' ''feed.carbon.intensity'' (Val (JStr ''id-1''))),
      ConsoleLog (AggregatorIntensity (Val (JNum 195)) (Val (JNum 192)) (Val (JStr ''moderate''))),
      ConsoleLog (AggregatorPeriod (Val (JStr ''2024-01-01T00:00Z'')) (Val (JStr ''2024-01-01T00:30Z''))),
      Ack 1 (delivery ''intensity id-1'' ''feed.carbon.intensity'' 41)]"
  by (simp add: aggregator_handleMessage_def aggregator_try_def aggregator_switch_def
      processIntensity_def and_then_def MESSAGE_TYPES_CARBON_INTENSITY_def
      consumer_ready_def example_parse_def delivery_def example_intensity_json_def)

text \<open>
  Claim C3, as the code has it. Neither consumer remembers an envelope id: what
  \<open>handleMessage\<close> does is decided by the delivery and the channel variable alone. A
  second delivery of the same body and routing key repeats every effect of the first,
  the console lines of the processing included, and ends with the same signal, now for
  the second delivery.
\<close>

theorem C3_every_delivery_is_processed:
  "(content m' = content m \<and> routingKey m' = routingKey m \<longrightarrow>
      fst (logger_handleMessage parse arraySort t' s (Some m')) =
        map (retarget t' m') (fst (logger_handleMessage parse arraySort t s (Some m))))
   \<and> (content m' = content m \<and> routingKey m' = routingKey m \<longrightarrow>
      fst (aggregator_handleMessage parse arraySort cid s (Some m')) =
        map (retarget t' m') (fst (aggregator_handleMessage parse arraySort cid s (Some m))))"
proof (rule conjI; rule impI)
  assume h: "content m' = content m \<and> routingKey m' = routingKey m"
  then have "logger_try parse arraySort t' ch m' =
      (map (retarget t' m') (fst (logger_try parse arraySort t ch m)),
       snd (logger_try parse arraySort t ch m))" for ch
    by (intro logger_try_redelivery) simp_all
  then show "fst (logger_handleMessage parse arraySort t' s (Some m')) =
        map (retarget t' m') (fst (logger_handleMessage parse arraySort t s (Some m)))"
    by (cases "consumer_channel s")
       (auto simp: logger_handleMessage_def logger_catch_def split: prod.splits option.splits)
next
  assume h: "content m' = content m \<and> routingKey m' = routingKey m"
  then have "aggregator_try parse arraySort cid ch m' =
      (map (retarget t' m') (fst (aggregator_try parse arraySort cid ch m)),
       snd (aggregator_try parse arraySort cid ch m))" for ch
    by (intro aggregator_try_redelivery) simp_all
  then show "fst (aggregator_handleMessage parse arraySort cid s (Some m')) =
        map (retarget t' m') (fst (aggregator_handleMessage parse arraySort cid s (Some m)))"
    by (cases "consumer_channel s")
       (auto simp: aggregator_handleMessage_def aggregator_catch_def split: prod.splits option.splits)
qed

theorem C3_every_delivery_is_processed_witness:
  "content (redelivery ''intensity id-1'' ''feed.carbon.intensity'' 42) =
     content (delivery ''intensity id-1'' ''feed.carbon.intensity'' 41)
   \<and> routingKey (redelivery ''intensity id-1'' ''feed.carbon.intensity'' 42) =
     routingKey (delivery ''intensity id-1'' ''feed.carbon.intensity'' 41)
   \<and> fst (logger_handleMessage example_parse example_arraySort ''12:00:05'' consumer_ready
          (Some (redelivery ''intensity id-1'' ''feed.carbon.intensity'' 42))) =
     [ConsoleLog (LoggerReceived ''12:00:05'' ''feed.carbon.intensity'' (Val (JStr ''id-1''))),
      ConsoleLog (LoggerSummary
        (IntensitySummary (Val (JNum 195)) (Val (JStr ''moderate'')) (Val (JNum 192)))),
      Ack 1 (redelivery ''intensity id-1'' ''feed.carbon.intensity'' 42)]
   \<and> fst (aggregator_handleMessage example_parse example_arraySort ''Aggregator-ab12'' consumer_ready
          (Some (redelivery ''intensity id-1'' ''feed.carbon.intensity'' 42))) =
     [ConsoleLog (AggregatorProcessing ''Aggregator-ab12'' ''feed.carbon.intensity'' (Val (JStr ''id-1''))),
      ConsoleLog (AggregatorIntensity (Val (JNum 195)) (Val (JNum 192)) (Val (JStr ''moderate''))),
      ConsoleLog (AggregatorPeriod (Val (JStr ''2024-01-01T00:00Z'')) (Val (JStr ''2024-01-01T00:30Z''))),
      Ack 1 (redelivery ''intensity id-1'' ''feed.carbon.intensity'' 42)]"
proof -
  have h: "content (redelivery ''intensity id-1'' ''feed.carbon.intensity'' 42) =
     content (delivery ''intensity id-1'' ''feed.carbon.intensity'' 41)
   \<and> routingKey (redelivery ''intensity id-1'' ''feed.carbon.intensity'' 42) =
     routingKey (delivery ''intensity id-1'' ''feed.carbon.intensity'' 41)"
    by (simp add: delivery_def redelivery_def)
  note inst = C3_every_delivery_is_processed
    [where m = "delivery ''intensity id-1'' ''feed.carbon.intensity'' 41"
       and m' = "redelivery ''intensity id-1'' ''feed.carbon.intensity'' 42"
       and parse = example_parse and arraySort = example_arraySort
       and s = consumer_ready and t = "''12:00:00''" and t' = "''12:00:05''"
       and cid = "''Aggregator-ab12''"]
  from inst [THEN conjunct1] h have l: "fst (logger_handleMessage example_parse example_arraySort
          ''12:00:05'' consumer_ready
          (Some (redelivery ''intensity id-1'' ''feed.carbon.intensity'' 42))) =
     [ConsoleLog (LoggerReceived ''12:00:05'' ''feed.carbon.intensity'' (Val (JStr ''id-1''))),
      ConsoleLog (LoggerSummary
        (IntensitySummary (Val (JNum 195)) (Val (JStr ''moderate'')) (Val (JNum 192)))),
      Ack 1 (redelivery ''intensity id-1'' ''feed.carbon.intensity'' 42)]"
    by (simp add: logger_first_delivery)
  from inst [THEN conjunct2] h have a: "fst (aggregator_handleMessage example_parse example_arraySort
          ''Aggregator-ab12'' consumer_ready
          (Some (redelivery ''intensity id-1'' ''feed.carbon.intensity'' 42))) =
     [ConsoleLog (AggregatorProcessing ''Aggregator-ab12'' ''feed.carbon.intensity'' (Val (JStr ''id-1''))),
      ConsoleLog (AggregatorIntensity (Val (JNum 195)) (Val (JNum 192)) (Val (JStr ''moderate''))),
      ConsoleLog (AggregatorPeriod (Val (JStr ''2024-01-01T00:00Z'')) (Val (JStr ''2024-01-01T00:30Z''))),
      Ack 1 (redelivery ''intensity id-1'' ''feed.carbon.intensity'' 42)]"
    by (simp add: aggregator_first_delivery)
  from h l a show ?thesis by blast
qed

text \<open>
  Claim C3 as the specification states it fails: the envelope \<open>id-1\<close> is delivered and
  acknowledged, then delivered again; both consumers process it again and print its
  lines a second time, so the two deliveries have two sets of effects, not one.
\<close>

theorem C3_dedup_counterexample:
  "example_parse (content (delivery ''intensity id-1'' ''feed.carbon.intensity'' 41)) =
     Some (example_intensity_json ''id-1'')
   \<and> example_parse (content (redelivery ''intensity id-1'' ''feed.carbon.intensity'' 42)) =
     Some (example_intensity_json ''id-1'')
   \<and> fst (logger_handleMessage example_parse example_arraySort ''12:00:00'' consumer_ready
          (Some (delivery ''intensity id-1'' ''feed.carbon.intensity'' 41))) =
     [ConsoleLog (LoggerReceived ''12:00:00'' ''feed.carbon.intensity'' (Val (JStr ''id-1''))),
      ConsoleLog (LoggerSummary
        (IntensitySummary (Val (JNum 195)) (Val (JStr ''moderate'')) (Val (JNum 192)))),
      Ack 1 (delivery ''intensity id-1'' ''feed.carbon.intensity'' 41)]
   \<and> fst (logger_handleMessage example_parse example_arraySort ''12:00:05'' consumer_ready
          (Some (redelivery ''intensity id-1'' ''feed.carbon.intensity'' 42))) =
     [ConsoleLog (LoggerReceived ''12:00:05'' ''feed.carbon.intensity'' (Val (JStr ''id-1''))),
      ConsoleLog (LoggerSummary
        (IntensitySummary (Val (JNum 195)) (Val (JStr ''moderate'')) (Val (JNum 192)))),
      Ack 1 (redelivery ''intensity id-1'' ''feed.carbon.intensity'' 42)]
   \<and> fst (aggregator_handleMessage example_parse example_arraySort ''Aggregator-ab12'' consumer_ready
          (Some (redelivery ''intensity id-1'' ''feed.carbon.intensity'' 42))) =
     [ConsoleLog (AggregatorProcessing ''Aggregator-ab12'' ''feed.carbon.intensity'' (Val (JStr ''id-1''))),
      ConsoleLog (AggregatorIntensity (Val (JNum 195)) (Val (JNum 192)) (Val (JStr ''moderate''))),
      ConsoleLog (AggregatorPeriod (Val (JStr ''2024-01-01T00:00Z'')) (Val (JStr ''2024-01-01T00:30Z''))),
      Ack 1 (redelivery ''intensity id-1'' ''feed.carbon.intensity'' 42)]"
  by (simp add: logger_handleMessage_def logger_try_def formatMessageSummary_def
      aggregator_handleMessage_def aggregator_try_def aggregator_switch_def processIntensity_def
      and_then_def MESSAGE_TYPES_CARBON_INTENSITY_def
      consumer_ready_def example_parse_def delivery_def redelivery_def example_intensity_json_def)

section \<open>Consumers: the signal for a delivery\<close>





lemma logger_try_signals:
  "signals (fst (logger_try parse arraySort t ch m)) =
     (case snd (logger_try parse arraySort t ch m) of None \<Rightarrow> [Ack ch m] | Some e \<Rightarrow> [])"
  by (simp add: logger_try_def signals_def split: option.splits sum.splits)

lemma aggregator_try_signals:
  "signals (fst (aggregator_try parse arraySort cid ch m)) =
     (case snd (aggregator_try parse arraySort cid ch m) of None \<Rightarrow> [Ack ch m] | Some e \<Rightarrow> [])"
  by (simp add: aggregator_try_def signals_def aggregator_switch_lines split: option.splits sum.splits)

lemma logger_signals:
  "consumer_channel s = Some ch \<Longrightarrow>
   signals (fst (logger_handleMessage parse arraySort t s (Some m))) =
     (case snd (logger_try parse arraySort t ch m) of
        None \<Rightarrow> [Ack ch m] | Some e \<Rightarrow> [Nack ch m False False])"
  using logger_try_signals [of parse arraySort t ch m]
  by (cases "logger_try parse arraySort t ch m")
     (auto simp: logger_handleMessage_def logger_catch_def signals_def split: option.splits)

lemma aggregator_signals:
  "consumer_channel s = Some ch \<Longrightarrow>
   signals (fst (aggregator_handleMessage parse arraySort cid s (Some m))) =
     (case snd (aggregator_try parse arraySort cid ch m) of
        None \<Rightarrow> [Ack ch m] | Some e \<Rightarrow> [Nack ch m False False])"
  using aggregator_try_signals [of parse arraySort cid ch m]
  by (cases "aggregator_try parse arraySort cid ch m")
     (auto simp: aggregator_handleMessage_def aggregator_catch_def signals_def split: option.splits)

lemma logger_returns: "snd (logger_handleMessage parse arraySort t s msg) = None"
  by (auto simp: logger_handleMessage_def split: option.splits prod.splits)

lemma aggregator_returns: "snd (aggregator_handleMessage parse arraySort cid s msg) = None"
  by (auto simp: aggregator_handleMessage_def split: option.splits prod.splits)









text \<open>
  Claim C10. For a null delivery, or with no channel set, \<open>handleMessage\<close> does
  nothing. Otherwise the signals among its effects are exactly one: the acknowledgement
  when the \<open>try\<close> block ended without an error, the negative acknowledgement without
  requeue when it threw. No error leaves \<open>handleMessage\<close>.
\<close>

theorem C10_one_signal_per_delivery:
  "logger_handleMessage parse arraySort t s None = ([], None)
   \<and> aggregator_handleMessage parse arraySort cid s None = ([], None)
   \<and> (consumer_channel s = None \<longrightarrow>
        logger_handleMessage parse arraySort t s msg = ([], None)
      \<and> aggregator_handleMessage parse arraySort cid s msg = ([], None))
   \<and> snd (logger_handleMessage parse arraySort t s msg) = None
   \<and> snd (aggregator_handleMessage parse arraySort cid s msg) = None
   \<and> (consumer_channel s = Some ch \<longrightarrow>
        signals (fst (logger_handleMessage parse arraySort t s (Some m))) =
          (case snd (logger_try parse arraySort t ch m) of
             None \<Rightarrow> [Ack ch m]
           | Some e \<Rightarrow> [Nack ch m False False])
      \<and> signals (fst (aggregator_handleMessage parse arraySort cid s (Some m))) =
          (case snd (aggregator_try parse arraySort cid ch m) of
             None \<Rightarrow> [Ack ch m]
           | Some e \<Rightarrow> [Nack ch m False False])
      \<and> length (signals (fst (logger_handleMessage parse arraySort t s (Some m)))) = 1
      \<and> length (signals (fst (aggregator_handleMessage parse arraySort cid s (Some m)))) = 1)"
proof -
  have a: "logger_handleMessage parse arraySort t s None = ([], None)
      \<and> aggregator_handleMessage parse arraySort cid s None = ([], None)"
    by (simp add: logger_handleMessage_def aggregator_handleMessage_def)
  have b: "consumer_channel s = None \<longrightarrow>
        logger_handleMessage parse arraySort t s msg = ([], None)
      \<and> aggregator_handleMessage parse arraySort cid s msg = ([], None)"
    by (simp add: logger_handleMessage_def aggregator_handleMessage_def split: option.splits)
  have c: "consumer_channel s = Some ch \<longrightarrow>
        signals (fst (logger_handleMessage parse arraySort t s (Some m))) =
          (case snd (logger_try parse arraySort t ch m) of
             None \<Rightarrow> [Ack ch m]
           | Some e \<Rightarrow> [Nack ch m False False])
      \<and> signals (fst (aggregator_handleMessage parse arraySort cid s (Some m))) =
          (case snd (aggregator_try parse arraySort cid ch m) of
             None \<Rightarrow> [Ack ch m]
           | Some e \<Rightarrow> [Nack ch m False False])
      \<and> length (signals (fst (logger_handleMessage parse arraySort t s (Some m)))) = 1
      \<and> length (signals (fst (aggregator_handleMessage parse arraySort cid s (Some m)))) = 1"
    by (simp add: logger_signals aggregator_signals split: option.splits)
  from a b c logger_returns [of parse arraySort t s msg] aggregator_returns [of parse arraySort cid s msg]
  show ?thesis by blast
qed


lemma intensity_delivery_succeeds:
  "snd (logger_try example_parse example_arraySort t ch
          (delivery ''intensity id-1'' ''feed.carbon.intensity'' 41)) = None"
  "snd (aggregator_try example_parse example_arraySort cid ch
          (delivery ''intensity id-1'' ''feed.carbon.intensity'' 41)) = None"
  by (simp_all add: logger_try_def formatMessageSummary_def
      aggregator_try_def aggregator_switch_def processIntensity_def and_then_def
      MESSAGE_TYPES_CARBON_INTENSITY_def
      example_parse_def delivery_def example_intensity_json_def)

lemma poison_raises:
  "snd (logger_try example_parse example_arraySort t ch
          (delivery ''mistyped id-4'' ''feed.carbon.generation'' 43)) = Some TypeError"
  "snd (aggregator_try example_parse example_arraySort cid ch
          (delivery ''mistyped id-4'' ''feed.carbon.generation'' 43)) = Some TypeError"
  by (simp_all add: logger_try_def formatMessageSummary_def
      aggregator_try_def aggregator_switch_def processGeneration_def sortMix_def and_then_def
      MESSAGE_TYPES_CARBON_INTENSITY_def MESSAGE_TYPES_CARBON_GENERATION_def
      example_parse_def delivery_def poison_json_def)

theorem C10_one_signal_per_delivery_witness:
  "consumer_channel consumer_not_ready = None
   \<and> consumer_channel consumer_ready = Some 1
   \<and> logger_handleMessage example_parse example_arraySort ''12:00:00'' consumer_ready None = ([], None)
   \<and> logger_handleMessage example_parse example_arraySort ''12:00:00'' consumer_not_ready
        (Some (delivery ''intensity id-1'' ''feed.carbon.intensity'' 41)) = ([], None)
   \<and> aggregator_handleMessage example_parse example_arraySort ''Aggregator-ab12'' consumer_not_ready
        (Some (delivery ''intensity id-1'' ''feed.carbon.intensity'' 41)) = ([], None)
   \<and> signals (fst (logger_handleMessage example_parse example_arraySort ''12:00:00'' consumer_ready
        (Some (delivery ''intensity id-1'' ''feed.carbon.intensity'' 41)))) =
       [Ack 1 (delivery ''intensity id-1'' ''feed.carbon.intensity'' 41)]
   \<and> signals (fst (aggregator_handleMessage example_parse example_arraySort ''Aggregator-ab12'' consumer_ready
        (Some (delivery ''intensity id-1'' ''feed.carbon.intensity'' 41)))) =
       [Ack 1 (delivery ''intensity id-1'' ''feed.carbon.intensity'' 41)]
   \<and> signals (fst (logger_handleMessage example_parse example_arraySort ''12:00:00'' consumer_ready
        (Some (delivery ''mistyped id-4'' ''feed.carbon.generation'' 43)))) =
       [Nack 1 (delivery ''mistyped id-4'' ''feed.carbon.generation'' 43) False False]
   \<and> signals (fst (aggregator_handleMessage example_parse example_arraySort ''Aggregator-ab12'' consumer_ready
        (Some (delivery ''mistyped id-4'' ''feed.carbon.generation'' 43)))) =
       [Nack 1 (delivery ''mistyped id-4'' ''feed.carbon.generation'' 43) False False]
   \<and> snd (logger_handleMessage example_parse example_arraySort ''12:00:00'' consumer_ready
        (Some (delivery ''mistyped id-4'' ''feed.carbon.generation'' 43))) = None"
proof -
  have n: "consumer_channel consumer_not_ready = None"
    by (simp add: consumer_not_ready_def)
  have r: "consumer_channel consumer_ready = Some 1"
    by (simp add: consumer_ready_def)
  note none = C10_one_signal_per_delivery
    [where s = consumer_not_ready and parse = example_parse and arraySort = example_arraySort and t = "''12:00:00''"
       and cid = "''Aggregator-ab12''"
       and msg = "Some (delivery ''intensity id-1'' ''feed.carbon.intensity'' 41)"]
  note good = C10_one_signal_per_delivery
    [where s = consumer_ready and parse = example_parse and arraySort = example_arraySort and t = "''12:00:00''"
       and cid = "''Aggregator-ab12''" and ch = 1
       and m = "delivery ''intensity id-1'' ''feed.carbon.intensity'' 41"]
  note bad = C10_one_signal_per_delivery
    [where s = consumer_ready and parse = example_parse and arraySort = example_arraySort and t = "''12:00:00''"
       and cid = "''Aggregator-ab12''" and ch = 1
       and m = "delivery ''mistyped id-4'' ''feed.carbon.generation'' 43"
       and msg = "Some (delivery ''mistyped id-4'' ''feed.carbon.generation'' 43)"]
  from none n have a: "logger_handleMessage example_parse example_arraySort ''12:00:00'' consumer_not_ready
        (Some (delivery ''intensity id-1'' ''feed.carbon.intensity'' 41)) = ([], None)
   \<and> aggregator_handleMessage example_parse example_arraySort ''Aggregator-ab12'' consumer_not_ready
        (Some (delivery ''intensity id-1'' ''feed.carbon.intensity'' 41)) = ([], None)"
    by blast
  from good have b: "logger_handleMessage example_parse example_arraySort ''12:00:00'' consumer_ready None = ([], None)"
    by blast
  from good r have c: "signals (fst (logger_handleMessage example_parse example_arraySort ''12:00:00'' consumer_ready
        (Some (delivery ''intensity id-1'' ''feed.carbon.intensity'' 41)))) =
       [Ack 1 (delivery ''intensity id-1'' ''feed.carbon.intensity'' 41)]
   \<and> signals (fst (aggregator_handleMessage example_parse example_arraySort ''Aggregator-ab12'' consumer_ready
        (Some (delivery ''intensity id-1'' ''feed.carbon.intensity'' 41)))) =
       [Ack 1 (delivery ''intensity id-1'' ''feed.carbon.intensity'' 41)]"
    by (simp add: intensity_delivery_succeeds)
  from bad r have d: "signals (fst (logger_handleMessage example_parse example_arraySort ''12:00:00'' consumer_ready
        (Some (delivery ''mistyped id-4'' ''feed.carbon.generation'' 43)))) =
       [Nack 1 (delivery ''mistyped id-4'' ''feed.carbon.generation'' 43) False False]
   \<and> signals (fst (aggregator_handleMessage example_parse example_arraySort ''Aggregator-ab12'' consumer_ready
        (Some (delivery ''mistyped id-4'' ''feed.carbon.generation'' 43)))) =
       [Nack 1 (delivery ''mistyped id-4'' ''feed.carbon.generation'' 43) False False]"
    by (simp add: poison_raises)
  from bad have e: "snd (logger_handleMessage example_parse example_arraySort ''12:00:00'' consumer_ready
        (Some (delivery ''mistyped id-4'' ''feed.carbon.generation'' 43))) = None"
    by blast
  from n r a b c d e show ?thesis by blast
qed

section \<open>Consumers: the errors a handler raises\<close>

text \<open>
  The \<open>try\<close> block of either consumer ends in one of two errors: the \<open>SyntaxError\<close>
  of \<open>JSON.parse\<close>, or a \<open>TypeError\<close> of the processing, raised by a property read
  on \<open>undefined\<close> or \<open>null\<close> or by a call of something that is not a function.
  Both are decided by the body of the delivery alone.
\<close>

lemma js_get_error: "js_get v k = Inl e \<Longrightarrow> e = TypeError"
  by (cases "(v, k)" rule: js_get.cases) simp_all

lemma sortMix_error: "sortMix arraySort v = Inl e \<Longrightarrow> e = TypeError"
  by (auto simp: sortMix_def split: js_value.splits json.splits if_splits)

lemma and_then_error:
  assumes "and_then r f = Inl e"
    and "\<And>e. r = Inl e \<Longrightarrow> e = TypeError"
    and "\<And>v e. f v = Inl e \<Longrightarrow> e = TypeError"
  shows "e = TypeError"
  using assms by (cases r) (auto simp: and_then_def)

lemma formatEntry_error: "formatEntry x = Inl e \<Longrightarrow> e = TypeError"
  unfolding formatEntry_def
  by (elim and_then_error js_get_error | simp split: js_value.splits json.splits)+

lemma map_try_formatEntry_error: "map_try formatEntry xs = Inl e \<Longrightarrow> e = TypeError"
proof (induction xs arbitrary: e)
  case Nil
  then show ?case by simp
next
  case (Cons x xs)
  from Cons.prems show ?case
    by (simp, elim and_then_error formatEntry_error Cons.IH) simp
qed


lemma formatMessageSummary_error: "formatMessageSummary arraySort envelope = Inl e \<Longrightarrow> e = TypeError"
  unfolding formatMessageSummary_def
  by (elim and_then_error js_get_error sortMix_error map_try_formatEntry_error | simp split: if_splits)+


lemma processIntensity_error: "processIntensity d = Inl e \<Longrightarrow> e = TypeError"
  unfolding processIntensity_def
  by (elim and_then_error js_get_error | simp)+

lemma processGeneration_error: "processGeneration arraySort d = Inl e \<Longrightarrow> e = TypeError"
  unfolding processGeneration_def
  by (elim and_then_error js_get_error sortMix_error map_try_formatEntry_error | simp)+

lemma aggregator_switch_error: "aggregator_switch arraySort envelope = Inl e \<Longrightarrow> e = TypeError"
  unfolding aggregator_switch_def
  by (elim and_then_error js_get_error processIntensity_error processGeneration_error
      | simp split: if_splits)+


lemma logger_try_errors:
  "snd (logger_try parse arraySort t ch m) = Some e \<Longrightarrow> e = SyntaxError \<or> e = TypeError"
  by (auto simp: logger_try_def dest: js_get_error formatMessageSummary_error
      split: option.splits sum.splits)

lemma aggregator_try_errors:
  "snd (aggregator_try parse arraySort cid ch m) = Some e \<Longrightarrow> e = SyntaxError \<or> e = TypeError"
  by (auto simp: aggregator_try_def dest: js_get_error aggregator_switch_error
      split: option.splits sum.splits)

end
